theory Spec2Isabelle
  imports Main
begin

section \<open>Python values used by the pipeline\<close>

text \<open>
  A Python \<open>str\<close> is a sequence of Unicode code points; \<open>len\<close> counts code points and
  slicing cuts between them. A string is therefore modelled as the list of its code
  points. \<open>lit\<close> turns an ASCII literal into such a list.
\<close>

type_synonym str = "nat list"

definition lit :: "string \<Rightarrow> str" where
  "lit s = map of_char s"

text \<open>
  \<open>str.isspace\<close> on one code point: the code points CPython treats as whitespace
  (\<open>str.strip()\<close> without argument removes exactly these).
\<close>

definition isspace :: "nat \<Rightarrow> bool" where
  "isspace c \<longleftrightarrow> c \<in> {9, 10, 11, 12, 13, 28, 29, 30, 31, 32, 133, 160, 5760,
     8192, 8193, 8194, 8195, 8196, 8197, 8198, 8199, 8200, 8201, 8202,
     8232, 8233, 8239, 8287, 12288}"

definition strip :: "str \<Rightarrow> str" where
  "strip s = rev (dropWhile isspace (rev (dropWhile isspace s)))"

text \<open>
  Python slicing \<open>xs[a:b]\<close> for arbitrary integers: a negative bound counts from the
  end, every bound is clamped to \<open>0..len(xs)\<close>, and the slice is empty when the bounds
  cross.
\<close>

definition norm_index :: "nat \<Rightarrow> int \<Rightarrow> nat" where
  "norm_index n i = (if i < 0 then nat (max (i + int n) 0) else min (nat i) n)"

definition py_slice :: "'a list \<Rightarrow> int \<Rightarrow> int \<Rightarrow> 'a list" where
  "py_slice xs a b =
     (let lo = norm_index (length xs) a; hi = norm_index (length xs) b
      in take (hi - lo) (drop lo xs))"

text \<open>
  Exceptions are values. \<open>LibraryError\<close> stands for any exception raised inside an
  external library (the embedding model, the vector index, file input and output, the
  HTTP client), carrying its message.
\<close>

datatype exn =
    RuntimeError str
  | IndexError
  | ZeroDivisionError
  | AssertionError
  | AttributeError
  | LibraryError str

fun exn_str :: "exn \<Rightarrow> str" where
  "exn_str (RuntimeError m) = m"
| "exn_str IndexError = lit ''list index out of range''"
| "exn_str ZeroDivisionError = lit ''division by zero''"
| "exn_str AssertionError = []"
| "exn_str AttributeError =
     39 # lit ''NoneType'' @ 39 # lit '' object has no attribute '' @ 39 # lit ''extend'' @ [39]"
| "exn_str (LibraryError m) = m"

text \<open>
  Python indexing \<open>xs[i]\<close>: a negative index counts from the end, an index outside
  \<open>-len(xs) .. len(xs)-1\<close> raises \<open>IndexError\<close>.
\<close>

definition py_index :: "'a list \<Rightarrow> int \<Rightarrow> exn + 'a" where
  "py_index xs i =
     (let n = int (length xs); j = (if i < 0 then i + n else i)
      in if 0 \<le> j \<and> j < n then Inr (xs ! nat j) else Inl IndexError)"

text \<open>\<open>str(n)\<close> for an integer: its decimal digits, with a minus sign when negative.\<close>

fun str_of_nat :: "nat \<Rightarrow> str" where
  "str_of_nat n = (if n < 10 then [48 + n] else str_of_nat (n div 10) @ [48 + n mod 10])"

definition str_of_int :: "int \<Rightarrow> str" where
  "str_of_int i = (if i < 0 then 45 # str_of_nat (nat (- i)) else str_of_nat (nat i))"


section \<open>utils.py: chunk\_text\<close>

text \<open>
  The loop of \<open>chunk_text\<close>: while \<open>start < len(text)\<close>, append
  \<open>text[start:start+size]\<close> and advance \<open>start\<close> by \<open>size - overlap\<close>. Nothing in the
  source bounds the number of iterations, so the loop is a partial function: \<open>None\<close>
  is a run that never leaves the loop.
\<close>

partial_function (option) chunk_loop ::
  "str \<Rightarrow> int \<Rightarrow> int \<Rightarrow> int \<Rightarrow> str list \<Rightarrow> str list option" where
  "chunk_loop text sz overlap start chunks =
     (if start < int (length text)
      then chunk_loop text sz overlap (start + (sz - overlap))
             (chunks @ [py_slice text start (start + sz)])
      else Some chunks)"

declare chunk_loop.simps [code]

text \<open>
  \<open>chunk_text(text, size, overlap)\<close>. A text that is empty after \<open>strip()\<close> gives the
  empty list at once. After the loop the source logs the average chunk length,
  \<open>sum(len(c) for c in chunks) / len(chunks)\<close>, which raises \<open>ZeroDivisionError\<close> on an
  empty chunk list.
\<close>

definition chunk_text :: "str \<Rightarrow> int \<Rightarrow> int \<Rightarrow> (exn + str list) option" where
  "chunk_text text sz overlap =
     (if strip text = [] then Some (Inr [])
      else (case chunk_loop text sz overlap 0 [] of
              None \<Rightarrow> None
            | Some chunks \<Rightarrow>
                if length chunks = 0 then Some (Inl ZeroDivisionError)
                else Some (Inr chunks)))"

text \<open>The start offset of the \<open>i\<close>-th chunk (counting from 0): \<open>i\<close> advances from 0.\<close>

definition chunk_start :: "int \<Rightarrow> int \<Rightarrow> nat \<Rightarrow> int" where
  "chunk_start sz overlap i = int i * (sz - overlap)"

text \<open>
  The number of iterations of the loop entered at offset \<open>start\<close> with a positive
  advance \<open>adv\<close>.
\<close>

definition loop_count :: "nat \<Rightarrow> int \<Rightarrow> int \<Rightarrow> nat" where
  "loop_count n start adv = nat ((int n - start + adv - 1) div adv)"


section \<open>progress.py: ProgressTracker\<close>

text \<open>
  A Python \<open>dict\<close> keeps its keys in insertion order: it is an association list with
  distinct keys. \<open>d[k] = v\<close> overwrites in place when \<open>k\<close> is present and appends
  otherwise; \<open>del d[k]\<close> removes the entry and raises \<open>KeyError\<close> when there is none;
  \<open>list(d.keys())\<close> is the list of first components.
\<close>

type_synonym ('k, 'v) dict = "('k \<times> 'v) list"

fun dict_set :: "('k, 'v) dict \<Rightarrow> 'k \<Rightarrow> 'v \<Rightarrow> ('k, 'v) dict" where
  "dict_set [] k v = [(k, v)]"
| "dict_set (p # ps) k v = (if fst p = k then (k, v) # ps else p # dict_set ps k v)"

definition keys :: "('k, 'v) dict \<Rightarrow> 'k list" where
  "keys d = map fst d"

definition dict_del :: "('k, 'v) dict \<Rightarrow> 'k \<Rightarrow> ('k, 'v) dict" where
  "dict_del d k = filter (\<lambda>p. fst p \<noteq> k) d"

definition dict_get :: "('k, 'v) dict \<Rightarrow> 'k \<Rightarrow> 'v option" where
  "dict_get d k = map_of d k"

text \<open>One entry of a session's log, the dictionary \<open>step_data\<close> of \<open>add_step\<close>.\<close>

record progress_step =
  timestamp :: str
  step :: str
  status :: str
  details :: str

record ProgressTracker =
  progress_data :: "(str, progress_step list) dict"
  active_sessions :: "(str, bool) dict"

definition init_tracker :: ProgressTracker where
  "init_tracker = \<lparr>progress_data = [], active_sessions = []\<rparr>"

definition start_session :: "ProgressTracker \<Rightarrow> str \<Rightarrow> ProgressTracker" where
  "start_session tr session_id =
     tr\<lparr>progress_data := dict_set (progress_data tr) session_id [],
        active_sessions := dict_set (active_sessions tr) session_id True\<rparr>"

text \<open>
  \<open>add_step\<close>; the time stamp \<open>datetime.now().isoformat()\<close> is read by the caller of
  the model and passed in as \<open>ts\<close>.
\<close>

definition add_step ::
  "ProgressTracker \<Rightarrow> str \<Rightarrow> str \<Rightarrow> str \<Rightarrow> str \<Rightarrow> str \<Rightarrow> ProgressTracker" where
  "add_step tr ts session_id stp stat det =
     (let tr1 = (if session_id \<notin> set (keys (progress_data tr))
                 then start_session tr session_id else tr);
          step_data = \<lparr>timestamp = ts, step = stp, status = stat, details = det\<rparr>
      in case dict_get (progress_data tr1) session_id of
           None \<Rightarrow> tr1
         | Some steps \<Rightarrow>
             tr1\<lparr>progress_data :=
                   dict_set (progress_data tr1) session_id (steps @ [step_data])\<rparr>)"

definition get_progress :: "ProgressTracker \<Rightarrow> str \<Rightarrow> progress_step list" where
  "get_progress tr session_id =
     (case dict_get (progress_data tr) session_id of None \<Rightarrow> [] | Some steps \<Rightarrow> steps)"

definition end_session :: "ProgressTracker \<Rightarrow> str \<Rightarrow> ProgressTracker" where
  "end_session tr session_id =
     (if session_id \<in> set (keys (active_sessions tr))
      then tr\<lparr>active_sessions := dict_set (active_sessions tr) session_id False\<rparr>
      else tr)"

text \<open>
  The body of the \<open>for\<close> loop of \<open>cleanup_old_sessions\<close>: delete the session's log, and
  its active flag when it has one.
\<close>

definition evict :: "ProgressTracker \<Rightarrow> str \<Rightarrow> ProgressTracker" where
  "evict tr session_id =
     tr\<lparr>progress_data := dict_del (progress_data tr) session_id,
        active_sessions :=
          (if session_id \<in> set (keys (active_sessions tr))
           then dict_del (active_sessions tr) session_id
           else active_sessions tr)\<rparr>"

text \<open>
  \<open>cleanup_old_sessions(max_sessions)\<close>: when there are more than \<open>max_sessions\<close>
  sessions, the sessions of \<open>sessions[:-max_sessions]\<close> are evicted one by one.
\<close>

definition cleanup_old_sessions :: "ProgressTracker \<Rightarrow> int \<Rightarrow> ProgressTracker" where
  "cleanup_old_sessions tr max_sessions =
     (if int (length (progress_data tr)) > max_sessions
      then (let sessions = keys (progress_data tr)
            in foldl evict tr (py_slice sessions 0 (- max_sessions)))
      else tr)"


section \<open>vectorstore.py\<close>

text \<open>
  A metadata row is the dictionary \<open>{"text": c, "source": source}\<close>; its two keys are
  the fields \<open>doc_text\<close> and \<open>doc_source\<close>.
\<close>

record doc =
  doc_text :: str
  doc_source :: str

text \<open>
  The module logs through \<open>logging\<close>. The model keeps the records of level \<open>WARNING\<close>
  and \<open>ERROR\<close>, in the order they are emitted; the \<open>INFO\<close> records have no effect on
  any result and are left out.
\<close>

datatype level = WARNING | ERROR

type_synonym log_record = "level \<times> str"

text \<open>The paths of the two persisted files.\<close>

definition INDEX_PATH :: str where
  "INDEX_PATH = lit ''faiss.index''"

definition META_PATH :: str where
  "META_PATH = lit ''meta.pkl''"

text \<open>
  The module's three globals, its log and the writes it has attempted. \<open>index\<close> is the
  flat index: the list of the stored vectors, whose position is their ordinal and whose
  length is \<open>ntotal\<close>. The vectors themselves are of an arbitrary type \<open>'v\<close>. \<open>model\<close>
  only records whether the embedding model is loaded; what it computes is part of the
  environment below. \<open>writes\<close> lists the paths on which a write to disk was started, in
  order, whether it succeeded or not.
\<close>

datatype model_handle = SentenceTransformer

record 'v vectorstore =
  model :: "model_handle option"
  index :: "'v list option"
  metadata :: "doc list option"
  log_records :: "log_record list"
  writes :: "str list"

text \<open>A file at a fixed path: absent, readable with some content, or raising when read.\<close>

datatype 'a stored = Absent | Holds 'a | Unreadable exn

text \<open>
  Everything outside the process that one call depends on: whether loading the embedding
  model raises, the two persisted files, the embedding of a sentence and whether encoding
  a batch raises, the distance the index compares by, whether appending to the index
  raises, whether each of the two writes raises, the answer of the generation service to
  a prompt, and the clock (the \<open>n\<close>-th reading of \<open>datetime.now().isoformat()\<close>).
\<close>

record ('v, 'd) env =
  load_model_error :: "exn option"
  index_file :: "'v list stored"
  meta_file :: "doc list stored"
  embed :: "str \<Rightarrow> 'v"
  encode_error :: "str list \<Rightarrow> exn option"
  dist :: "'v \<Rightarrow> 'v \<Rightarrow> 'd"
  index_add_error :: "'v list \<Rightarrow> exn option"
  write_index_error :: "exn option"
  dump_meta_error :: "exn option"
  ollama_reply :: "str \<Rightarrow> exn + str"
  now :: "nat \<Rightarrow> str"

definition logged :: "'v vectorstore \<Rightarrow> log_record list \<Rightarrow> 'v vectorstore" where
  "logged st rs = st\<lparr>log_records := log_records st @ rs\<rparr>"

text \<open>
  The three blocks of \<open>_ensure_initialized\<close>, one per global, each guarded by
  \<open>if ... is None\<close>: a model whose construction raises stays \<open>None\<close>; an index or a
  metadata list whose file is absent or unreadable becomes empty.
\<close>

definition init_model :: "('v, 'd) env \<Rightarrow> 'v vectorstore \<Rightarrow> 'v vectorstore" where
  "init_model e st =
     (if model st = None
      then (case load_model_error e of
              None \<Rightarrow> st\<lparr>model := Some SentenceTransformer\<rparr>
            | Some x \<Rightarrow>
                logged (st\<lparr>model := None\<rparr>)
                  [(ERROR, lit ''[ERROR] Failed to load SentenceTransformer model: ''
                             @ exn_str x)])
      else st)"

definition init_index :: "('v, 'd) env \<Rightarrow> 'v vectorstore \<Rightarrow> 'v vectorstore" where
  "init_index e st =
     (if index st = None
      then (case index_file e of
              Holds vecs \<Rightarrow> st\<lparr>index := Some vecs\<rparr>
            | Absent \<Rightarrow> st\<lparr>index := Some []\<rparr>
            | Unreadable x \<Rightarrow>
                (logged st
                   [(ERROR, lit ''[ERROR] Failed to load FAISS index: '' @ exn_str x)])
                  \<lparr>index := Some []\<rparr>)
      else st)"

definition init_metadata :: "('v, 'd) env \<Rightarrow> 'v vectorstore \<Rightarrow> 'v vectorstore" where
  "init_metadata e st =
     (if metadata st = None
      then (case meta_file e of
              Holds rows \<Rightarrow> st\<lparr>metadata := Some rows\<rparr>
            | Absent \<Rightarrow> st\<lparr>metadata := Some []\<rparr>
            | Unreadable x \<Rightarrow>
                (logged st
                   [(ERROR, lit ''[ERROR] Failed to load metadata: '' @ exn_str x)])
                  \<lparr>metadata := Some []\<rparr>)
      else st)"

text \<open>
  \<open>_ensure_initialized\<close>. When all three globals are set it returns at once. Otherwise
  the three blocks run in order: model, index, metadata.
\<close>

definition ensure_initialized :: "('v, 'd) env \<Rightarrow> 'v vectorstore \<Rightarrow> 'v vectorstore" where
  "ensure_initialized e st =
     (if model st \<noteq> None \<and> index st \<noteq> None \<and> metadata st \<noteq> None then st
      else init_metadata e (init_index e (init_model e st)))"

text \<open>
  The two writes at the end of \<open>add_documents\<close>, inside one \<open>try\<close>: the index file
  first, the metadata file only when the first write returned. Each write that is started
  is recorded in \<open>writes\<close>. An exception of either is caught, logged twice (an error
  record with the exception, then a warning) and dropped.
\<close>

definition persist :: "('v, 'd) env \<Rightarrow> 'v vectorstore \<Rightarrow> 'v vectorstore" where
  "persist e st =
     (let failed = (\<lambda>s x. logged s
                      [(ERROR, lit ''[ERROR] Failed to persist data: '' @ exn_str x),
                       (WARNING, lit ''Data added to memory but not saved to disk'')]);
          st1 = st\<lparr>writes := writes st @ [INDEX_PATH]\<rparr>
      in case write_index_error e of
           Some x \<Rightarrow> failed st1 x
         | None \<Rightarrow>
             (let st2 = st1\<lparr>writes := writes st1 @ [META_PATH]\<rparr>
              in case dump_meta_error e of Some x \<Rightarrow> failed st2 x | None \<Rightarrow> st2))"

text \<open>
  \<open>add_documents(chunks, source)\<close>: the result is \<open>Inr ()\<close> for a normal return and
  \<open>Inl\<close> the exception for a raise; the second component is the module state afterwards.
  \<open>_model.encode(chunks)\<close> gives one vector per chunk, in order; \<open>_index.add\<close> appends
  them; \<open>_metadata.extend\<close> appends one row per chunk.
\<close>

definition add_documents ::
  "('v, 'd) env \<Rightarrow> 'v vectorstore \<Rightarrow> str list \<Rightarrow> str \<Rightarrow> (exn + unit) \<times> 'v vectorstore" where
  "add_documents e st chunks source =
     (let st1 = ensure_initialized e st in
      case (model st1, index st1) of
        (Some m, Some vecs) \<Rightarrow>
          (case encode_error e chunks of
             Some x \<Rightarrow>
               (Inl x, logged st1
                  [(ERROR, lit ''[ERROR] Failed to generate embeddings: '' @ exn_str x)])
           | None \<Rightarrow>
               (let embeddings = map (embed e) chunks in
                case index_add_error e embeddings of
                  Some x \<Rightarrow>
                    (Inl x, logged st1
                       [(ERROR, lit ''[ERROR] Failed to add vectors to index: '' @ exn_str x)])
                | None \<Rightarrow>
                    (let st2 = st1\<lparr>index := Some (vecs @ embeddings)\<rparr> in
                     case metadata st2 of
                       None \<Rightarrow> (Inl AttributeError, st2)
                     | Some rows \<Rightarrow>
                         (let st3 = st2\<lparr>metadata :=
                                Some (rows @ map (\<lambda>c. \<lparr>doc_text = c, doc_source = source\<rparr>)
                                              chunks)\<rparr>
                          in (Inr (), persist e st3)))))
      | _ \<Rightarrow>
          (Inl (RuntimeError (lit ''Vector store not initialized properly'')),
           logged st1 [(ERROR, lit ''Vector store not initialized properly'')]))"

text \<open>
  The contract of the flat L2 index's \<open>search\<close> for one query vector and \<open>k\<close> results
  (the library is not part of the repository): it refuses \<open>k \<le> 0\<close>; otherwise it returns
  exactly \<open>k\<close> labels, the ordinals of the stored vectors nearest to the query in
  ascending distance, and fills the slots for which there is no vector with the label
  \<open>-1\<close>. Among vectors at equal distance the model ranks the lower ordinal first; no
  result below depends on that choice.
\<close>

definition flat_search ::
  "('v \<Rightarrow> 'v \<Rightarrow> 'd::linorder) \<Rightarrow> 'v list \<Rightarrow> 'v \<Rightarrow> int \<Rightarrow> exn + int list" where
  "flat_search d vecs q k =
     (if k \<le> 0 then Inl AssertionError
      else Inr (map int (take (nat k) (sort_key (\<lambda>i. d q (vecs ! i)) [0..<length vecs]))
                @ replicate (nat k - length vecs) (- 1)))"

text \<open>
  The \<open>for\<close> loop at the end of \<open>search\<close>, over the labels \<open>I[0]\<close>: a label with
  \<open>idx < len(_metadata)\<close> is looked up as \<open>_metadata[idx]\<close> (Python indexing, outside any
  \<open>try\<close>) and appended to the results; any other label is logged and skipped.
\<close>

fun search_loop ::
  "doc list \<Rightarrow> int list \<Rightarrow> doc list \<Rightarrow> log_record list
     \<Rightarrow> (exn + doc list) \<times> log_record list" where
  "search_loop rows [] results lg = (Inr results, lg)"
| "search_loop rows (idx # labels) results lg =
     (if idx < int (length rows)
      then (case py_index rows idx of
              Inl x \<Rightarrow> (Inl x, lg)
            | Inr result \<Rightarrow> search_loop rows labels (results @ [result]) lg)
      else search_loop rows labels results
             (lg @ [(WARNING, lit ''Index '' @ str_of_int idx
                       @ lit '' out of range for metadata (size: ''
                       @ str_of_nat (length rows) @ lit '')'')]))"

text \<open>\<open>search(query, k)\<close>.\<close>

definition search ::
  "('v, 'd::linorder) env \<Rightarrow> 'v vectorstore \<Rightarrow> str \<Rightarrow> int
     \<Rightarrow> (exn + doc list) \<times> 'v vectorstore" where
  "search e st query k =
     (let st1 = ensure_initialized e st in
      case (model st1, index st1) of
        (Some m, Some vecs) \<Rightarrow>
          (case metadata st1 of
             None \<Rightarrow>
               (Inr [], logged st1
                  [(WARNING, lit ''No documents in metadata store - empty search results'')])
           | Some rows \<Rightarrow>
               if rows = [] then
                 (Inr [], logged st1
                    [(WARNING, lit ''No documents in metadata store - empty search results'')])
               else
                 (case encode_error e [query] of
                    Some x \<Rightarrow>
                      (Inr [], logged st1
                         [(ERROR, lit ''[ERROR] Failed to generate query embedding: ''
                                    @ exn_str x)])
                  | None \<Rightarrow>
                      (case flat_search (dist e) vecs (embed e query) k of
                         Inl x \<Rightarrow>
                           (Inr [], logged st1
                              [(ERROR, lit ''[ERROR] Search failed: '' @ exn_str x)])
                       | Inr labels \<Rightarrow>
                           (case search_loop rows labels [] [] of
                              (r, lg) \<Rightarrow> (r, logged st1 lg)))))
      | _ \<Rightarrow>
          (Inr [], logged st1
             [(WARNING, lit ''Vector store not properly initialized for search'')]))"

text \<open>The store's invariant: as many vectors in the index as rows of metadata.\<close>

definition counts_agree :: "'v vectorstore \<Rightarrow> bool" where
  "counts_agree st =
     (case (index st, metadata st) of
        (Some vecs, Some rows) \<Rightarrow> length vecs = length rows
      | _ \<Rightarrow> False)"


section \<open>rag.py: answer\_question\<close>

text \<open>
  The process state seen by \<open>answer_question\<close>: the vector store module, the global
  \<open>progress_tracker\<close>, the number of clock readings made so far, and the prompts sent
  to the generation service, oldest first.
\<close>

record 'v world =
  store :: "'v vectorstore"
  tracker :: ProgressTracker
  clock_reads :: nat
  prompts :: "str list"

text \<open>
  \<open>if session_id: progress_tracker.add_step(session_id, ...)\<close>: nothing happens for
  \<open>None\<close> and for the empty string, which are both false in Python.
\<close>

definition track ::
  "('v, 'd) env \<Rightarrow> 'v world \<Rightarrow> str option \<Rightarrow> str \<Rightarrow> str \<Rightarrow> str \<Rightarrow> 'v world" where
  "track e w session_id stp stat det =
     (case session_id of
        None \<Rightarrow> w
      | Some sid \<Rightarrow>
          if sid = [] then w
          else w\<lparr>tracker := add_step (tracker w) (now e (clock_reads w)) sid stp stat det,
                 clock_reads := Suc (clock_reads w)\<rparr>)"

text \<open>
  \<open>_ollama_generate(prompt)\<close>: one request to the generation service. Its outcome, the
  response text or the \<open>RuntimeError\<close> the function raises for a transport failure, an
  HTTP error or an unparseable body, is the environment's \<open>ollama_reply\<close>.
\<close>

definition ollama_generate ::
  "('v, 'd) env \<Rightarrow> 'v world \<Rightarrow> str \<Rightarrow> (exn + str) \<times> 'v world" where
  "ollama_generate e w prompt = (ollama_reply e prompt, w\<lparr>prompts := prompts w @ [prompt]\<rparr>)"

text \<open>\<open>sep.join(parts)\<close>.\<close>

fun py_join :: "str \<Rightarrow> str list \<Rightarrow> str" where
  "py_join sep [] = []"
| "py_join sep [x] = x"
| "py_join sep (x # y # ys) = x @ sep @ py_join sep (y # ys)"

text \<open>The prompt template, an f-string with the two holes \<open>context\<close> and \<open>question\<close>.\<close>

definition build_prompt :: "str \<Rightarrow> str \<Rightarrow> str" where
  "build_prompt context question =
     10 # lit ''You are a helpful assistant.''
     @ 10 # lit ''Answer the question using ONLY the context below.''
     @ 10 # lit ''When you use a fact, cite it like [1], [2], etc.''
     @ 10 # lit ''If the answer is not in the context, say: ''
     @ 34 # lit ''I don't know based on the provided documents.''
     @ 34 # 10 # 10 # lit ''Context:''
     @ 10 # context
     @ 10 # 10 # lit ''Question:''
     @ 10 # question
     @ 10 # 10 # lit ''Answer:'' @ [10]"

text \<open>
  One context block, \<open>f"[{i}] Source: {d['source']}\n{d['text']}"\<close>, and the context,
  the blocks numbered from 1 and joined by a blank line.
\<close>

definition context_part :: "nat \<Rightarrow> doc \<Rightarrow> str" where
  "context_part i d =
     91 # str_of_nat i @ lit ''] Source: '' @ doc_source d @ 10 # doc_text d"

definition build_context :: "doc list \<Rightarrow> str" where
  "build_context docs =
     py_join [10, 10] (map (\<lambda>(i, d). context_part i d) (enumerate 1 docs))"

text \<open>
  The returned dictionary \<open>{"answer": ..., "sources": [...]}\<close> and one entry
  \<open>{"id": i+1, "source": d["source"]}\<close> of its source list: the key \<open>"id"\<close> is the
  field \<open>ref_id\<close>, the key \<open>"source"\<close> the field \<open>ref_source\<close>.
\<close>

record source_ref =
  ref_id :: int
  ref_source :: str

record response =
  answer :: str
  sources :: "source_ref list"

definition no_documents_answer :: str where
  "no_documents_answer =
     lit ''I don't have any relevant documents to answer this question. Please upload some documents first.''"

definition make_sources :: "doc list \<Rightarrow> source_ref list" where
  "make_sources docs =
     map (\<lambda>(i, d). \<lparr>ref_id = int i + 1, ref_source = doc_source d\<rparr>) (enumerate 0 docs)"

text \<open>
  \<open>answer_question(question, session_id)\<close>. An exception of \<open>search\<close> or of
  \<open>_ollama_generate\<close> is reported to the tracker and raised again as a \<open>RuntimeError\<close>.
\<close>

definition answer_question ::
  "('v, 'd::linorder) env \<Rightarrow> 'v world \<Rightarrow> str \<Rightarrow> str option
     \<Rightarrow> (exn + response) \<times> 'v world" where
  "answer_question e w question session_id =
     (let w1 = track e w session_id (lit ''[SEARCH] Searching documents...'') (lit ''info'') []
      in case search e (store w1) question 5 of
        (Inl x, s1) \<Rightarrow>
          (Inl (RuntimeError (lit ''Failed to search documents: '' @ exn_str x)),
           track e (w1\<lparr>store := s1\<rparr>) session_id
             (lit ''[ERROR] Document search failed'') (lit ''error'') (exn_str x))
      | (Inr docs, s1) \<Rightarrow>
          (let w2 = track e (w1\<lparr>store := s1\<rparr>) session_id
                      (lit ''[OK] Found '' @ str_of_nat (length docs)
                         @ lit '' relevant documents'')
                      (lit ''success'') []
           in if docs = [] then
                (Inr \<lparr>answer = no_documents_answer, sources = []\<rparr>,
                 track e w2 session_id
                   (lit ''[WARNING] No relevant documents found'') (lit ''warning'') [])
              else
                (let w3 = track e w2 session_id
                            (lit ''[PROCESS] Building context from documents...'')
                            (lit ''info'') [];
                     context = build_context docs;
                     w4 = track e w3 session_id
                            (lit ''[OK] Built context: '' @ str_of_nat (length context)
                               @ lit '' characters'')
                            (lit ''success'') [];
                     w5 = track e w4 session_id
                            (lit ''[AI] Preparing AI prompt...'') (lit ''info'') [];
                     prompt = build_prompt context question;
                     w6 = track e w5 session_id
                            (lit ''[AI] Generating AI response...'') (lit ''info'') []
                 in case ollama_generate e w6 prompt of
                      (Inl x, w7) \<Rightarrow>
                        (Inl (RuntimeError (lit ''Failed to generate answer: '' @ exn_str x)),
                         track e w7 session_id
                           (lit ''[ERROR] AI generation failed'') (lit ''error'') (exn_str x))
                    | (Inr generated, w7) \<Rightarrow>
                        (let w8 = track e w7 session_id
                                    (lit ''[OK] AI response generated: ''
                                       @ str_of_nat (length generated) @ lit '' chars'')
                                    (lit ''success'') []
                         in (Inr \<lparr>answer = strip generated,
                                   sources = make_sources docs\<rparr>, w8)))))"


section \<open>A concrete environment and concrete states\<close>

text \<open>
  An environment in which nothing fails: no persisted files, a vector is an integer (the
  length of the sentence), the distance is the absolute difference, and the generation
  service answers every prompt with the same text, padded with blanks.
\<close>

definition demo_env :: "(int, int) env" where
  "demo_env =
     \<lparr>load_model_error = None,
      index_file = Absent,
      meta_file = Absent,
      embed = (\<lambda>s. int (length s)),
      encode_error = (\<lambda>batch. None),
      dist = (\<lambda>a b. \<bar>a - b\<bar>),
      index_add_error = (\<lambda>vecs. None),
      write_index_error = None,
      dump_meta_error = None,
      ollama_reply = (\<lambda>prompt. Inr (lit ''  It is 42 [1].  '')),
      now = (\<lambda>n. str_of_nat n)\<rparr>"

text \<open>The module state at import: nothing loaded, nothing logged.\<close>

definition fresh_store :: "'v vectorstore" where
  "fresh_store =
     \<lparr>model = None, index = None, metadata = None, log_records = [], writes = []\<rparr>"

definition fresh_world :: "'v world" where
  "fresh_world = \<lparr>store = fresh_store, tracker = init_tracker, clock_reads = 0, prompts = []\<rparr>"

text \<open>Three chunks of one document, and the store after ingesting them.\<close>

definition three_chunks :: "str list" where
  "three_chunks = [lit ''alpha'', lit ''beta gamma'', lit ''delta epsilon zeta'']"

definition three_rows :: "doc list" where
  "three_rows = map (\<lambda>c. \<lparr>doc_text = c, doc_source = lit ''a.pdf''\<rparr>) three_chunks"

definition three_store :: "int vectorstore" where
  "three_store =
     \<lparr>model = Some SentenceTransformer, index = Some [5, 10, 18],
      metadata = Some three_rows, log_records = [],
      writes = [INDEX_PATH, META_PATH]\<rparr>"

text \<open>
  A store whose two persisted files were reloaded out of step: three vectors in the
  index, one metadata row.
\<close>

definition desync_store :: "int vectorstore" where
  "desync_store =
     \<lparr>model = Some SentenceTransformer, index = Some [5, 10, 18],
      metadata = Some [\<lparr>doc_text = lit ''alpha'', doc_source = lit ''a.pdf''\<rparr>],
      log_records = [], writes = []\<rparr>"

text \<open>
  An environment whose two persisted files are out of step in the same way; a process
  started in it loads \<open>desync_store\<close>.
\<close>

definition desync_env :: "(int, int) env" where
  "desync_env =
     demo_env\<lparr>index_file := Holds [5, 10, 18],
              meta_file := Holds [\<lparr>doc_text = lit ''alpha'', doc_source = lit ''a.pdf''\<rparr>]\<rparr>"

text \<open>The store of three chunks before the embedding model could be loaded.\<close>

definition modelless_store :: "int vectorstore" where
  "modelless_store = three_store\<lparr>model := None\<rparr>"

text \<open>
  Environments in which one thing fails: loading the embedding model, encoding a batch,
  writing the index file, writing the metadata file.
\<close>

definition no_model_env :: "(int, int) env" where
  "no_model_env =
     demo_env\<lparr>load_model_error := Some (LibraryError (lit ''model download failed''))\<rparr>"

definition no_encode_env :: "(int, int) env" where
  "no_encode_env =
     demo_env\<lparr>encode_error := (\<lambda>batch. Some (LibraryError (lit ''encode failed'')))\<rparr>"

definition disk_full_env :: "(int, int) env" where
  "disk_full_env =
     demo_env\<lparr>write_index_error := Some (LibraryError (lit ''No space left on device''))\<rparr>"

definition meta_unwritable_env :: "(int, int) env" where
  "meta_unwritable_env =
     demo_env\<lparr>dump_meta_error := Some (LibraryError (lit ''Permission denied''))\<rparr>"

text \<open>The process with the three chunks ingested and nothing else done.\<close>

definition three_world :: "int world" where
  "three_world = fresh_world\<lparr>store := three_store\<rparr>"

text \<open>A tracker with two sessions, \<open>s1\<close> created before \<open>s2\<close>.\<close>

definition two_sessions :: ProgressTracker where
  "two_sessions = start_session (start_session init_tracker (lit ''s1'')) (lit ''s2'')"


section \<open>Facts about slicing and the chunking loop\<close>

lemma py_slice_window:
  assumes "0 \<le> a" and "0 \<le> b"
  shows "py_slice xs a (a + b) = take (nat b) (drop (nat a) xs)"
proof -
  have e: "nat (a + b) = nat a + nat b"
    using assms by (simp add: nat_add_distrib)
  show ?thesis
    using assms by (auto simp: py_slice_def norm_index_def Let_def e min_def)
qed

lemma chunk_loop_step:
  "start < int (length text) \<Longrightarrow>
   chunk_loop text sz overlap start chunks =
     chunk_loop text sz overlap (start + (sz - overlap))
       (chunks @ [py_slice text start (start + sz)])"
  by (subst chunk_loop.simps) simp

lemma chunk_loop_stop:
  "\<not> start < int (length text) \<Longrightarrow> chunk_loop text sz overlap start chunks = Some chunks"
  by (subst chunk_loop.simps) simp

lemma loop_count_stop: "0 < adv \<Longrightarrow> \<not> start < int n \<Longrightarrow> loop_count n start adv = 0"
proof -
  assume s: "0 < adv" and h: "\<not> start < int n"
  have "(int n - start + adv - 1) div adv \<le> 0"
  proof -
    have "int n - start + adv - 1 < adv" using h by linarith
    then show ?thesis using s
      by (cases "0 \<le> int n - start + adv - 1")
         (simp_all add: div_nonpos_pos_le0)
  qed
  then show ?thesis by (simp add: loop_count_def)
qed

lemma loop_count_step:
  assumes "0 < adv" and "start < int n"
  shows "loop_count n start adv = Suc (loop_count n (start + adv) adv)"
proof -
  have e: "int n - start + adv - 1 = (int n - (start + adv) + adv - 1) + 1 * adv"
    by simp
  have nn: "0 \<le> (int n - (start + adv) + adv - 1) div adv"
    using assms by (simp add: pos_imp_zdiv_nonneg_iff)
  have "(int n - start + adv - 1) div adv = (int n - (start + adv) + adv - 1) div adv + 1"
    using assms(1) by (subst e, subst div_mult_self1) auto
  then show ?thesis using nn by (simp add: loop_count_def nat_add_distrib)
qed

text \<open>
  With a positive advance the loop returns, and its result is the accumulator followed
  by one slice per iteration, the \<open>i\<close>-th taken at \<open>start + i * (size - overlap)\<close>.
\<close>

lemma chunk_loop_result:
  assumes "overlap < sz"
  shows "chunk_loop text sz overlap start chunks =
           Some (chunks @ map (\<lambda>i. py_slice text (start + int i * (sz - overlap))
                                         (start + int i * (sz - overlap) + sz))
                            [0..<loop_count (length text) start (sz - overlap)])"
proof (induction "nat (int (length text) - start)" arbitrary: start chunks rule: less_induct)
  case less
  let ?adv = "sz - overlap"
  have pos: "0 < ?adv" using assms by simp
  show ?case
  proof (cases "start < int (length text)")
    case False
    then show ?thesis
      by (simp add: chunk_loop_stop loop_count_stop [OF pos])
  next
    case True
    have smaller: "nat (int (length text) - (start + ?adv)) < nat (int (length text) - start)"
      using True pos by linarith
    have cnt: "loop_count (length text) start ?adv
                 = Suc (loop_count (length text) (start + ?adv) ?adv)"
      using loop_count_step [OF pos True] .
    have shift: "\<And>i. start + ?adv + int i * ?adv = start + int (Suc i) * ?adv"
      by (simp add: algebra_simps)
    show ?thesis
      apply (subst chunk_loop_step [OF True])
      apply (subst less [OF smaller])
      apply (subst cnt)
      apply (subst upt_conv_Cons, simp)
      apply (subst map_Suc_upt [symmetric])
      apply (simp add: shift del: of_nat_Suc)
      done
  qed
qed

lemma strip_Nil: "strip [] = []"
  by (simp add: strip_def)

lemma loop_count_pos: "0 < adv \<Longrightarrow> 0 < n \<Longrightarrow> 0 < loop_count n 0 adv"
  using loop_count_step [of adv 0 n] by simp

lemma chunk_text_result:
  assumes "overlap < sz"
  shows "chunk_text text sz overlap =
           Some (Inr (if strip text = [] then []
                      else map (\<lambda>i. py_slice text (chunk_start sz overlap i)
                                                  (chunk_start sz overlap i + sz))
                               [0..<loop_count (length text) 0 (sz - overlap)]))"
proof (cases "strip text = []")
  case True
  then show ?thesis by (simp add: chunk_text_def)
next
  case False
  then have "text \<noteq> []" using strip_Nil by auto
  then have "0 < loop_count (length text) 0 (sz - overlap)"
    using assms by (intro loop_count_pos) auto
  then show ?thesis
    using False by (simp add: chunk_text_def chunk_loop_result [OF assms] chunk_start_def)
qed

lemma loop_count_div:
  assumes "0 < adv"
  shows "loop_count n 0 (int adv) = (n + adv - 1) div adv"
proof -
  have "int n - 0 + int adv - 1 = int (n + adv - 1)"
    using assms by simp
  then have "loop_count n 0 (int adv) = nat (int (n + adv - 1) div int adv)"
    by (simp only: loop_count_def)
  also have "\<dots> = (n + adv - 1) div adv"
    by (simp only: zdiv_int [symmetric] nat_int)
  finally show ?thesis .
qed

lemma covers_aux:
  fixes j stp :: nat
  assumes "0 < stp" "j < n"
  shows "j div stp < (n + stp - 1) div stp"
proof -
  have "j div stp \<le> (n - 1) div stp" using assms by (intro div_le_mono) simp
  also have "\<dots> < (n - 1) div stp + 1" by simp
  also have "\<dots> = (n - 1 + stp) div stp"
    by (rule div_add_self2 [symmetric]) (use assms in simp)
  also have "n - 1 + stp = n + stp - 1" using assms by simp
  finally show ?thesis .
qed


lemma nonblank_chunks_cover:
  assumes nb: "strip text \<noteq> []" and o0: "0 \<le> overlap" and os: "overlap < sz"
  shows "\<exists>chunks. chunk_text text sz overlap = Some (Inr chunks)
     \<and> (\<forall>i<length chunks. chunks ! i =
            py_slice text (chunk_start sz overlap i) (chunk_start sz overlap i + sz))
     \<and> (\<forall>i. chunk_start sz overlap (Suc i) - chunk_start sz overlap i = sz - overlap)
     \<and> (\<forall>c\<in>set chunks. int (length c) \<le> sz)
     \<and> (\<forall>j<length text. \<exists>i<length chunks.
            chunk_start sz overlap i \<le> int j
          \<and> int j < chunk_start sz overlap i + int (length (chunks ! i))
          \<and> chunks ! i ! (j - nat (chunk_start sz overlap i)) = text ! j)"
proof -
  define stp where "stp = nat (sz - overlap)"
  define cnt where "cnt = loop_count (length text) 0 (sz - overlap)"
  define chunks where "chunks = map (\<lambda>i. py_slice text (chunk_start sz overlap i)
                                        (chunk_start sz overlap i + sz)) [0..<cnt]"
  have stp: "0 < stp" "int stp = sz - overlap" "stp \<le> nat sz"
    using o0 os by (auto simp: stp_def)
  have sz: "0 \<le> sz" using o0 os by simp
  have cs: "\<And>i. chunk_start sz overlap i = int (i * stp)"
    by (simp add: chunk_start_def stp(2) [symmetric])
  have cnt: "cnt = (length text + stp - 1) div stp"
    unfolding cnt_def stp(2) [symmetric] using stp(1) by (rule loop_count_div)
  have len: "length chunks = cnt" by (simp add: chunks_def)
  have nth: "\<And>i. i < cnt \<Longrightarrow> chunks ! i = take (nat sz) (drop (i * stp) text)"
    using sz by (simp add: chunks_def cs py_slice_window del: of_nat_mult)
  have res: "chunk_text text sz overlap = Some (Inr chunks)"
    using nb by (simp add: chunk_text_result [OF os] chunks_def cnt_def)
  have a: "\<forall>i<length chunks. chunks ! i =
            py_slice text (chunk_start sz overlap i) (chunk_start sz overlap i + sz)"
    by (simp add: chunks_def)
  have b: "\<forall>i. chunk_start sz overlap (Suc i) - chunk_start sz overlap i = sz - overlap"
    by (simp add: chunk_start_def algebra_simps)
  have c: "\<forall>c\<in>set chunks. int (length c) \<le> sz"
  proof
    fix c assume "c \<in> set chunks"
    then obtain i where "i < cnt" "c = chunks ! i"
      by (metis in_set_conv_nth len)
    then have "c = take (nat sz) (drop (i * stp) text)" using nth by simp
    then show "int (length c) \<le> sz" using sz by simp
  qed
  have d: "\<forall>j<length text. \<exists>i<length chunks.
            chunk_start sz overlap i \<le> int j
          \<and> int j < chunk_start sz overlap i + int (length (chunks ! i))
          \<and> chunks ! i ! (j - nat (chunk_start sz overlap i)) = text ! j"
  proof (intro allI impI)
    fix j assume j: "j < length text"
    define i where "i = j div stp"
    have i: "i < cnt" unfolding i_def cnt using stp(1) j by (rule covers_aux)
    have lo: "i * stp \<le> j" by (simp add: i_def)
    have hi: "j < i * stp + stp" using stp(1) unfolding i_def
      by (metis add.commute dividend_less_div_times)
    have l: "length (chunks ! i) = min (nat sz) (length text - i * stp)"
      using nth [OF i] by simp
    have in_chunk: "j - i * stp < length (chunks ! i)"
    proof -
      define k where "k = i * stp"
      have "k \<le> j" "j < k + stp" using lo hi by (simp_all add: k_def)
      then have "j - k < min (nat sz) (length text - k)"
        using j stp(3) by linarith
      then show ?thesis unfolding l k_def .
    qed
    have le: "i * stp \<le> length text" using lo j by linarith
    have eq: "chunks ! i ! (j - i * stp) = text ! j"
      using in_chunk lo le unfolding nth [OF i] by simp
    have 1: "int (i * stp) \<le> int j" using lo by linarith
    have 2: "int j < int (i * stp) + int (length (chunks ! i))"
      using in_chunk lo by linarith
    have 3: "chunks ! i ! (j - nat (int (i * stp))) = text ! j"
      using eq by (simp only: nat_int)
    show "\<exists>i<length chunks.
            chunk_start sz overlap i \<le> int j
          \<and> int j < chunk_start sz overlap i + int (length (chunks ! i))
          \<and> chunks ! i ! (j - nat (chunk_start sz overlap i)) = text ! j"
      unfolding len cs using i 1 2 3 by blast
  qed
  show ?thesis using res a b c d by blast
qed

lemma chunk_count_bounds:
  assumes nb: "strip text \<noteq> []" and o0: "0 \<le> overlap" and os: "overlap < sz"
    and res: "chunk_text text sz overlap = Some (Inr chunks)"
  shows "chunks \<noteq> []"
    and "chunk_start sz overlap (length chunks - 1) < int (length text)"
    and "int (length text) \<le> chunk_start sz overlap (length chunks)"
proof -
  define stp where "stp = nat (sz - overlap)"
  define n where "n = length text"
  define c where "c = (n + stp - 1) div stp"
  have stp: "0 < stp" "int stp = sz - overlap" using os by (auto simp: stp_def)
  have n: "0 < n" using nb strip_Nil by (cases "text") (auto simp: n_def)
  have "loop_count (length text) 0 (sz - overlap) = c"
    unfolding c_def n_def stp(2) [symmetric] using stp(1) by (rule loop_count_div)
  then have len: "length chunks = c"
    using res nb by (auto simp: chunk_text_result [OF os])
  have up: "c * stp \<le> n + stp - 1" unfolding c_def by simp
  have lo: "n + stp - 1 < stp + c * stp"
    unfolding c_def using stp(1) by (rule dividend_less_div_times)
  have c1: "1 \<le> c"
  proof -
    have "stp div stp \<le> (n + stp - 1) div stp"
      using n by (intro div_le_mono) simp
    then show ?thesis using stp(1) by (simp add: c_def)
  qed
  have a: "(c - 1) * stp < n"
  proof -
    obtain c' where c': "c = Suc c'" using c1 by (cases c) auto
    have "(c - 1) * stp + stp = c * stp" unfolding c' by simp
    then show ?thesis using up stp(1) n by linarith
  qed
  have b: "n \<le> c * stp" using lo n by linarith
  have cs: "\<And>i. chunk_start sz overlap i = int (i * stp)"
    by (simp add: chunk_start_def stp(2) [symmetric])
  show "chunks \<noteq> []" using len c1 by auto
  show "chunk_start sz overlap (length chunks - 1) < int (length text)"
    unfolding cs len using a by (simp only: n_def of_nat_less_iff)
  show "int (length text) \<le> chunk_start sz overlap (length chunks)"
    unfolding cs len using b by (simp only: n_def of_nat_le_iff)
qed


section \<open>Facts about the progress tracker\<close>

lemma foldl_evict_data:
  "progress_data (foldl evict tr ks) = filter (\<lambda>p. fst p \<notin> set ks) (progress_data tr)"
proof (induction ks arbitrary: tr)
  case Nil
  then show ?case by simp
next
  case (Cons k ks)
  have "filter (\<lambda>p. fst p \<notin> set ks) (filter (\<lambda>p. fst p \<noteq> k) (progress_data tr))
          = filter (\<lambda>p. fst p \<notin> set (k # ks)) (progress_data tr)"
    by (auto intro: filter_cong)
  then show ?case using Cons by (simp add: evict_def dict_del_def)
qed

lemma filter_not_in_take:
  "distinct (map f xs) \<Longrightarrow> filter (\<lambda>p. f p \<notin> set (take n (map f xs))) xs = drop n xs"
proof (induction xs arbitrary: n)
  case Nil
  then show ?case by simp
next
  case (Cons x xs)
  show ?case
  proof (cases n)
    case 0
    then show ?thesis by simp
  next
    case (Suc m)
    have d: "distinct (map f xs)" and nx: "f x \<notin> f ` set xs" using Cons.prems by auto
    have "filter (\<lambda>p. f p \<notin> set (take m (map f xs))) xs = drop m xs"
      using Cons.IH [OF d] .
    moreover have "filter (\<lambda>p. f p \<noteq> f x \<and> f p \<notin> set (take m (map f xs))) xs
                     = filter (\<lambda>p. f p \<notin> set (take m (map f xs))) xs"
    proof (intro filter_cong refl)
      fix p assume "p \<in> set xs"
      then have "f p \<noteq> f x" using nx by (metis image_eqI)
      then show "(f p \<noteq> f x \<and> f p \<notin> set (take m (map f xs)))
                   = (f p \<notin> set (take m (map f xs)))" by simp
    qed
    ultimately show ?thesis using Suc by simp
  qed
qed

lemma py_slice_drop_last:
  "0 < k \<Longrightarrow> py_slice xs 0 (- k) = take (length xs - nat k) xs"
  by (auto simp: py_slice_def norm_index_def Let_def max_def intro: arg_cong [where f = "\<lambda>n. take n xs"])

lemma py_slice_minus_zero: "py_slice xs 0 (- 0) = []"
  by (simp add: py_slice_def norm_index_def)

lemma cleanup_keeps_most_recent:
  assumes "distinct (keys (progress_data tr))" and "0 < k"
  shows "progress_data (cleanup_old_sessions tr k)
           = drop (length (progress_data tr) - nat k) (progress_data tr)"
    and "length (progress_data (cleanup_old_sessions tr k))
           = min (length (progress_data tr)) (nat k)"
proof -
  show 1: "progress_data (cleanup_old_sessions tr k)
           = drop (length (progress_data tr) - nat k) (progress_data tr)"
  proof (cases "int (length (progress_data tr)) > k")
    case True
    have "py_slice (keys (progress_data tr)) 0 (- k)
            = take (length (progress_data tr) - nat k) (map fst (progress_data tr))"
      using assms(2) by (simp add: py_slice_drop_last keys_def)
    then show ?thesis
      using True assms(1)
      by (simp add: cleanup_old_sessions_def foldl_evict_data filter_not_in_take keys_def)
  next
    case False
    then show ?thesis by (simp add: cleanup_old_sessions_def)
  qed
  show "length (progress_data (cleanup_old_sessions tr k))
           = min (length (progress_data tr)) (nat k)"
    unfolding 1 using assms(2) by auto
qed

lemma cleanup_zero_keeps_all: "cleanup_old_sessions tr 0 = tr"
  by (simp add: cleanup_old_sessions_def py_slice_def norm_index_def)


section \<open>Facts about the vector store\<close>

lemma logged_fields [simp]:
  "model (logged st rs) = model st"
  "index (logged st rs) = index st"
  "metadata (logged st rs) = metadata st"
  "writes (logged st rs) = writes st"
  "log_records (logged st rs) = log_records st @ rs"
  by (simp_all add: logged_def)

lemma init_model_fields [simp]:
  "index (init_model e st) = index st"
  "metadata (init_model e st) = metadata st"
  "writes (init_model e st) = writes st"
  by (simp_all add: init_model_def split: option.splits)

lemma init_index_fields [simp]:
  "model (init_index e st) = model st"
  "metadata (init_index e st) = metadata st"
  "writes (init_index e st) = writes st"
  by (simp_all add: init_index_def split: stored.splits)

lemma init_metadata_fields [simp]:
  "model (init_metadata e st) = model st"
  "index (init_metadata e st) = index st"
  "writes (init_metadata e st) = writes st"
  by (simp_all add: init_metadata_def split: stored.splits)

lemma init_index_kept [simp]: "index st = Some vecs \<Longrightarrow> index (init_index e st) = Some vecs"
  by (simp add: init_index_def)

lemma init_metadata_kept [simp]:
  "metadata st = Some rows \<Longrightarrow> metadata (init_metadata e st) = Some rows"
  by (simp add: init_metadata_def)

lemma init_model_fails [simp]:
  "model st = None \<Longrightarrow> load_model_error e = Some x \<Longrightarrow> model (init_model e st) = None"
  by (simp add: init_model_def)

lemma ensure_initialized_loaded:
  "model st = Some m \<Longrightarrow> index st = Some vecs \<Longrightarrow> metadata st = Some rows
     \<Longrightarrow> ensure_initialized e st = st"
  by (simp add: ensure_initialized_def)

lemma ensure_initialized_index:
  "index st = Some vecs \<Longrightarrow> index (ensure_initialized e st) = Some vecs"
  by (simp add: ensure_initialized_def)

lemma ensure_initialized_metadata:
  "metadata st = Some rows \<Longrightarrow> metadata (ensure_initialized e st) = Some rows"
  by (simp add: ensure_initialized_def)

lemma ensure_initialized_writes: "writes (ensure_initialized e st) = writes st"
  by (simp add: ensure_initialized_def)

lemma ensure_initialized_model_fails:
  "model st = None \<Longrightarrow> load_model_error e = Some x \<Longrightarrow> model (ensure_initialized e st) = None"
  by (simp add: ensure_initialized_def)

lemma persist_fields [simp]:
  "model (persist e st) = model st"
  "index (persist e st) = index st"
  "metadata (persist e st) = metadata st"
  by (simp_all add: persist_def Let_def split: option.splits)


section \<open>Facts about search\<close>

lemma py_index_nat: "j < length xs \<Longrightarrow> py_index xs (int j) = Inr (xs ! j)"
  by (simp add: py_index_def Let_def)

lemma py_index_minus_one: "xs \<noteq> [] \<Longrightarrow> py_index xs (- 1) = Inr (last xs)"
proof -
  assume ne: "xs \<noteq> []"
  then have "nat (- 1 + int (length xs)) = length xs - 1"
    by (cases xs) auto
  then show ?thesis
    using ne by (simp add: py_index_def Let_def last_conv_nth)
qed

lemma search_loop_ordinals:
  "\<exists>lg'. search_loop rows (map int js @ rest) acc lg
          = search_loop rows rest
              (acc @ map ((!) rows) (filter (\<lambda>j. j < length rows) js)) lg'"
proof (induction js arbitrary: acc lg)
  case Nil
  then show ?case by auto
next
  case (Cons j js)
  show ?case
  proof (cases "j < length rows")
    case True
    then show ?thesis
      using Cons [of "acc @ [rows ! j]" lg] by (simp add: py_index_nat)
  next
    case False
    then show ?thesis
      using Cons [of acc] by simp
  qed
qed

lemma search_loop_padding:
  "rows \<noteq> [] \<Longrightarrow>
     search_loop rows (replicate n (- 1)) acc lg = (Inr (acc @ replicate n (last rows)), lg)"
proof (induction n arbitrary: acc)
  case 0
  then show ?case by simp
next
  case (Suc n)
  have "acc @ last rows # replicate n (last rows) = (acc @ [last rows]) @ replicate n (last rows)"
    by simp
  then show ?case
    using Suc by (simp add: py_index_minus_one del: append_assoc)
qed

lemma search_loop_labels:
  assumes "rows \<noteq> []"
  shows "fst (search_loop rows (map int js @ replicate n (- 1)) [] [])
           = Inr (map ((!) rows) (filter (\<lambda>j. j < length rows) js) @ replicate n (last rows))"
proof -
  obtain lg' where
    "search_loop rows (map int js @ replicate n (- 1)) [] []
       = search_loop rows (replicate n (- 1))
           ([] @ map ((!) rows) (filter (\<lambda>j. j < length rows) js)) lg'"
    using search_loop_ordinals by blast
  then show ?thesis
    using assms by (simp add: search_loop_padding)
qed

text \<open>
  The result of \<open>search\<close> on a loaded store with at least one metadata row, when the
  query can be embedded and \<open>k\<close> is positive: the rows of the ranked ordinals that are
  below the number of rows, then one copy of the last row per padding label.
\<close>

lemma search_result:
  assumes "model st = Some m" and "index st = Some vecs" and "metadata st = Some rows"
    and "rows \<noteq> []" and "encode_error e [query] = None" and "0 < k"
  shows "fst (search e st query k)
           = Inr (map ((!) rows)
                    (filter (\<lambda>j. j < length rows)
                       (take (nat k)
                          (sort_key (\<lambda>i. dist e (embed e query) (vecs ! i)) [0..<length vecs])))
                  @ replicate (nat k - length vecs) (last rows))"
proof -
  define labels where
    "labels = map int (take (nat k)
                (sort_key (\<lambda>i. dist e (embed e query) (vecs ! i)) [0..<length vecs]))
              @ replicate (nat k - length vecs) (- 1)"
  have ei: "ensure_initialized e st = st"
    using assms by (simp add: ensure_initialized_loaded)
  have fs: "flat_search (dist e) vecs (embed e query) k = Inr labels"
    using assms(6) by (simp add: flat_search_def labels_def)
  have sl: "fst (search_loop rows labels [] [])
              = Inr (map ((!) rows)
                    (filter (\<lambda>j. j < length rows)
                       (take (nat k)
                          (sort_key (\<lambda>i. dist e (embed e query) (vecs ! i)) [0..<length vecs])))
                  @ replicate (nat k - length vecs) (last rows))"
    unfolding labels_def by (rule search_loop_labels [OF assms(4)])
  show ?thesis
    using sl by (simp add: search_def ei assms(1-5) fs case_prod_beta)
qed

lemma count_below:
  "length (filter (\<lambda>j. j < m) (sort_key f [0..<v])) = min v m"
proof -
  have "length (filter (\<lambda>j. j < m) (sort_key f [0..<v]))
          = card ({j. j < m} \<inter> set (sort_key f [0..<v]))"
    by (rule distinct_length_filter) simp
  also have "{j. j < m} \<inter> set (sort_key f [0..<v]) = {0..<min v m}"
    by auto
  finally show ?thesis by simp
qed


lemma search_after_init:
  assumes "ensure_initialized e st = st'"
    and "model st' = Some m" and "index st' = Some vecs" and "metadata st' = Some rows"
  shows "search e st query k = search e st' query k"
proof -
  have "ensure_initialized e st' = st'"
    using assms(2-4) by (rule ensure_initialized_loaded)
  then show ?thesis using assms(1) by (simp add: search_def)
qed


section \<open>Facts about strip and answer\_question\<close>

lemma strip_decompose:
  "\<exists>a b. s = a @ strip s @ b \<and> (\<forall>c\<in>set a. isspace c) \<and> (\<forall>c\<in>set b. isspace c)"
proof -
  let ?t = "dropWhile isspace s"
  let ?a = "takeWhile isspace s"
  let ?b = "rev (takeWhile isspace (rev ?t))"
  have 1: "s = ?a @ ?t" by simp
  have "rev (takeWhile isspace (rev ?t) @ dropWhile isspace (rev ?t)) = rev (rev ?t)"
    by (simp only: takeWhile_dropWhile_id)
  then have "rev (dropWhile isspace (rev ?t)) @ ?b = ?t"
    by (simp only: rev_append rev_rev_ident)
  then have 2: "?t = strip s @ ?b" by (simp only: strip_def)
  have a: "\<forall>c\<in>set ?a. isspace c" by (auto dest: set_takeWhileD)
  have b: "\<forall>c\<in>set ?b. isspace c" by (auto dest: set_takeWhileD)
  have "s = ?a @ strip s @ ?b" using 1 2 by metis
  then show ?thesis using a b by blast
qed

lemma strip_ends:
  assumes "strip s \<noteq> []"
  shows "\<not> isspace (hd (strip s))" and "\<not> isspace (last (strip s))"
proof -
  let ?t = "dropWhile isspace s"
  let ?u = "dropWhile isspace (rev ?t)"
  have u: "?u \<noteq> []" using assms by (simp add: strip_def)
  have t: "?t \<noteq> []"
  proof
    assume "?t = []"
    then have "?u = []" by (simp only: rev.simps(1) dropWhile.simps(1))
    with u show False by contradiction
  qed
  have "\<not> isspace (hd ?u)" using u by (rule hd_dropWhile)
  then show "\<not> isspace (last (strip s))"
    using u by (simp add: strip_def last_rev)
  have ht: "\<not> isspace (hd ?t)" using t by (rule hd_dropWhile)
  have "last ?u = last (rev ?t)"
  proof -
    have "last (takeWhile isspace (rev ?t) @ ?u) = last ?u"
      using u by (rule last_appendR)
    moreover have "takeWhile isspace (rev ?t) @ ?u = rev ?t"
      by (rule takeWhile_dropWhile_id)
    ultimately show ?thesis by metis
  qed
  then have "hd (strip s) = hd ?t"
    using u t by (simp add: strip_def hd_rev last_rev)
  then show "\<not> isspace (hd (strip s))" using ht by simp
qed

lemma track_fields [simp]:
  "store (track e w sid a b c) = store w"
  "prompts (track e w sid a b c) = prompts w"
  by (simp_all add: track_def split: option.splits)

lemma make_sources_length: "length (make_sources docs) = length docs"
  by (simp add: make_sources_def)

lemma make_sources_nth:
  "i < length docs \<Longrightarrow>
     make_sources docs ! i = \<lparr>ref_id = int i + 1, ref_source = doc_source (docs ! i)\<rparr>"
  by (simp add: make_sources_def nth_enumerate_eq)


section \<open>The concrete states, evaluated\<close>

lemma ingest_three:
  "add_documents demo_env fresh_store three_chunks (lit ''a.pdf'') = (Inr (), three_store)"
  by (simp add: add_documents_def ensure_initialized_def init_model_def init_index_def
        init_metadata_def persist_def Let_def demo_env_def fresh_store_def three_store_def
        three_rows_def three_chunks_def lit_def)

lemma three_store_search:
  "fst (search demo_env three_store (lit ''beta'') 5)
     = Inr (three_rows @ [last three_rows, last three_rows])"
proof -
  have "fst (search demo_env three_store (lit ''beta'') 5)
     = Inr (map ((!) three_rows)
              (filter (\<lambda>j. j < length three_rows)
                 (take (nat 5)
                    (sort_key (\<lambda>i. dist demo_env (embed demo_env (lit ''beta'')) ([5, 10, 18] ! i))
                       [0..<length [5, 10, 18 :: int]])))
            @ replicate (nat 5 - length [5, 10, 18 :: int]) (last three_rows))"
    by (rule search_result [where m = SentenceTransformer])
       (simp_all add: three_store_def three_rows_def three_chunks_def demo_env_def)
  also have "\<dots> = Inr (three_rows @ [last three_rows, last three_rows])"
    by (simp add: three_rows_def three_chunks_def demo_env_def lit_def upt_rec numeral_eq_Suc)
  finally show ?thesis .
qed

lemma desync_store_search:
  "fst (search demo_env desync_store (lit ''beta'') 5)
     = Inr (replicate 3 \<lparr>doc_text = lit ''alpha'', doc_source = lit ''a.pdf''\<rparr>)"
proof -
  let ?rows = "[\<lparr>doc_text = lit ''alpha'', doc_source = lit ''a.pdf''\<rparr>]"
  have "fst (search demo_env desync_store (lit ''beta'') 5)
     = Inr (map ((!) ?rows)
              (filter (\<lambda>j. j < length ?rows)
                 (take (nat 5)
                    (sort_key (\<lambda>i. dist demo_env (embed demo_env (lit ''beta'')) ([5, 10, 18] ! i))
                       [0..<length [5, 10, 18 :: int]])))
            @ replicate (nat 5 - length [5, 10, 18 :: int]) (last ?rows))"
    by (rule search_result [where m = SentenceTransformer])
       (simp_all add: desync_store_def demo_env_def)
  also have "\<dots> = Inr (replicate 3 \<lparr>doc_text = lit ''alpha'', doc_source = lit ''a.pdf''\<rparr>)"
    by (simp add: demo_env_def lit_def upt_rec numeral_eq_Suc)
  finally show ?thesis .
qed

lemma no_encode_search: "fst (search no_encode_env three_store (lit ''beta'') 5) = Inr []"
  by (simp add: search_def ensure_initialized_def Let_def no_encode_env_def demo_env_def
        three_store_def three_rows_def three_chunks_def)

lemma fresh_store_search: "fst (search demo_env fresh_store (lit ''beta'') 5) = Inr []"
  by (simp add: search_def ensure_initialized_def init_model_def init_index_def
        init_metadata_def Let_def demo_env_def fresh_store_def)

lemma desync_loaded: "ensure_initialized desync_env fresh_store = desync_store"
  by (simp add: ensure_initialized_def init_model_def init_index_def init_metadata_def
        desync_env_def demo_env_def fresh_store_def desync_store_def)

lemma desync_env_search:
  "fst (search desync_env fresh_store (lit ''beta'') 5)
     = Inr (replicate 3 \<lparr>doc_text = lit ''alpha'', doc_source = lit ''a.pdf''\<rparr>)"
proof -
  let ?rows = "[\<lparr>doc_text = lit ''alpha'', doc_source = lit ''a.pdf''\<rparr>]"
  have "search desync_env fresh_store (lit ''beta'') 5
          = search desync_env desync_store (lit ''beta'') 5"
    by (rule search_after_init [OF desync_loaded, where m = SentenceTransformer])
       (simp_all add: desync_store_def)
  moreover have "fst (search desync_env desync_store (lit ''beta'') 5)
     = Inr (map ((!) ?rows)
              (filter (\<lambda>j. j < length ?rows)
                 (take (nat 5)
                    (sort_key (\<lambda>i. dist desync_env (embed desync_env (lit ''beta''))
                                       ([5, 10, 18] ! i))
                       [0..<length [5, 10, 18 :: int]])))
            @ replicate (nat 5 - length [5, 10, 18 :: int]) (last ?rows))"
    by (rule search_result [where m = SentenceTransformer])
       (simp_all add: desync_store_def desync_env_def demo_env_def)
  moreover have "Inr (map ((!) ?rows)
              (filter (\<lambda>j. j < length ?rows)
                 (take (nat 5)
                    (sort_key (\<lambda>i. dist desync_env (embed desync_env (lit ''beta''))
                                       ([5, 10, 18] ! i))
                       [0..<length [5, 10, 18 :: int]])))
            @ replicate (nat 5 - length [5, 10, 18 :: int]) (last ?rows))
       = (Inr (replicate 3 \<lparr>doc_text = lit ''alpha'', doc_source = lit ''a.pdf''\<rparr>)
            :: exn + doc list)"
    by (simp add: desync_env_def demo_env_def lit_def upt_rec numeral_eq_Suc)
  ultimately show ?thesis by simp
qed

lemma disk_full_log:
  "log_records (snd (add_documents disk_full_env three_store [lit ''eta''] (lit ''b.txt'')))
     = [(ERROR, lit ''[ERROR] Failed to persist data: No space left on device''),
        (WARNING, lit ''Data added to memory but not saved to disk'')]"
  by (simp add: add_documents_def ensure_initialized_def persist_def Let_def
        disk_full_env_def demo_env_def three_store_def lit_def)

lemma meta_write_failure_example:
  "fst (add_documents meta_unwritable_env three_store [lit ''eta''] (lit ''b.txt'')) = Inr ()
   \<and> writes (snd (add_documents meta_unwritable_env three_store [lit ''eta''] (lit ''b.txt'')))
       = [INDEX_PATH, META_PATH, INDEX_PATH, META_PATH]
   \<and> map fst (log_records (snd (add_documents meta_unwritable_env three_store [lit ''eta'']
                                   (lit ''b.txt''))))
       = [ERROR, WARNING]"
  by (simp add: add_documents_def ensure_initialized_def persist_def Let_def
        meta_unwritable_env_def demo_env_def three_store_def)


section \<open>Chunking: coverage and termination\<close>

text \<open>
  Claim C3, as the code has it. \<open>chunk_text\<close> answers a text that is empty after
  \<open>strip()\<close> (the empty text, or whitespace only) with the empty list, whatever \<open>size\<close>
  and \<open>overlap\<close> are; such a text may have characters, and they are in no chunk. For
  every text with at least one character that is not whitespace, and every \<open>size\<close> and
  \<open>overlap\<close> with \<open>0 \<le> overlap < size\<close>, the call returns a non-empty list of chunks such
  that: the last chunk starts inside the text and the next start offset would be at or
  past its end; the \<open>i\<close>-th chunk is \<open>text[start:start+size]\<close> for
  \<open>start = i * (size - overlap)\<close>; consecutive start offsets differ by exactly
  \<open>size - overlap\<close>; every chunk has at most \<open>size\<close> characters; and every position \<open>j\<close>
  of the text lies inside some chunk, which holds the text's \<open>j\<close>-th character at the
  corresponding place.
\<close>

theorem chunk_text_covers:
  assumes o0: "0 \<le> overlap" and os: "overlap < sz"
  shows "(strip text = [] \<longrightarrow> chunk_text text sz overlap = Some (Inr []))
     \<and> (strip text \<noteq> [] \<longrightarrow>
          (\<exists>chunks. chunk_text text sz overlap = Some (Inr chunks)
             \<and> chunks \<noteq> []
             \<and> chunk_start sz overlap (length chunks - 1) < int (length text)
             \<and> int (length text) \<le> chunk_start sz overlap (length chunks)
             \<and> (\<forall>i<length chunks. chunks ! i =
                    py_slice text (chunk_start sz overlap i) (chunk_start sz overlap i + sz))
             \<and> (\<forall>i. chunk_start sz overlap (Suc i) - chunk_start sz overlap i = sz - overlap)
             \<and> (\<forall>c\<in>set chunks. int (length c) \<le> sz)
             \<and> (\<forall>j<length text. \<exists>i<length chunks.
                    chunk_start sz overlap i \<le> int j
                  \<and> int j < chunk_start sz overlap i + int (length (chunks ! i))
                  \<and> chunks ! i ! (j - nat (chunk_start sz overlap i)) = text ! j)))"
proof (intro conjI impI)
  assume "strip text = []"
  then show "chunk_text text sz overlap = Some (Inr [])"
    by (simp add: chunk_text_def)
next
  assume nb: "strip text \<noteq> []"
  from nonblank_chunks_cover [OF nb o0 os] obtain chunks where
    r: "chunk_text text sz overlap = Some (Inr chunks)"
    and rest: "(\<forall>i<length chunks. chunks ! i =
                    py_slice text (chunk_start sz overlap i) (chunk_start sz overlap i + sz))
             \<and> (\<forall>i. chunk_start sz overlap (Suc i) - chunk_start sz overlap i = sz - overlap)
             \<and> (\<forall>c\<in>set chunks. int (length c) \<le> sz)
             \<and> (\<forall>j<length text. \<exists>i<length chunks.
                    chunk_start sz overlap i \<le> int j
                  \<and> int j < chunk_start sz overlap i + int (length (chunks ! i))
                  \<and> chunks ! i ! (j - nat (chunk_start sz overlap i)) = text ! j)"
    by blast
  note b = chunk_count_bounds [OF nb o0 os r]
  show "\<exists>chunks. chunk_text text sz overlap = Some (Inr chunks)
             \<and> chunks \<noteq> []
             \<and> chunk_start sz overlap (length chunks - 1) < int (length text)
             \<and> int (length text) \<le> chunk_start sz overlap (length chunks)
             \<and> (\<forall>i<length chunks. chunks ! i =
                    py_slice text (chunk_start sz overlap i) (chunk_start sz overlap i + sz))
             \<and> (\<forall>i. chunk_start sz overlap (Suc i) - chunk_start sz overlap i = sz - overlap)
             \<and> (\<forall>c\<in>set chunks. int (length c) \<le> sz)
             \<and> (\<forall>j<length text. \<exists>i<length chunks.
                    chunk_start sz overlap i \<le> int j
                  \<and> int j < chunk_start sz overlap i + int (length (chunks ! i))
                  \<and> chunks ! i ! (j - nat (chunk_start sz overlap i)) = text ! j)"
    using r b rest by (intro exI [of _ chunks]) blast
qed

theorem chunk_text_covers_witness:
  "(0::int) \<le> 3 \<and> (3::int) < 8
   \<and> strip (lit ''hello world, this is'') \<noteq> []
   \<and> (\<exists>chunks. chunk_text (lit ''hello world, this is'') 8 3 = Some (Inr chunks)
        \<and> chunks \<noteq> []
        \<and> chunk_start 8 3 (length chunks - 1) < int (length (lit ''hello world, this is''))
        \<and> int (length (lit ''hello world, this is'')) \<le> chunk_start 8 3 (length chunks)
        \<and> (\<forall>c\<in>set chunks. int (length c) \<le> 8)
        \<and> (\<forall>j<length (lit ''hello world, this is''). \<exists>i<length chunks.
              chunk_start 8 3 i \<le> int j
            \<and> int j < chunk_start 8 3 i + int (length (chunks ! i))
            \<and> chunks ! i ! (j - nat (chunk_start 8 3 i)) = lit ''hello world, this is'' ! j))
   \<and> strip (lit '' '' @ [10, 9]) = []
   \<and> chunk_text (lit '' '' @ [10, 9]) 8 3 = Some (Inr [])"
proof -
  have h0: "(0::int) \<le> 3" and h1: "(3::int) < 8" by simp_all
  have h: "strip (lit ''hello world, this is'') \<noteq> []"
    by (simp add: strip_def lit_def isspace_def)
  have b: "strip (lit '' '' @ [10, 9]) = []"
    by (simp add: strip_def lit_def isspace_def)
  note r1 = chunk_text_covers [OF h0 h1, of "lit ''hello world, this is''", THEN conjunct2,
              THEN mp, OF h]
  note r2 = chunk_text_covers [OF h0 h1, of "lit '' '' @ [10, 9]", THEN conjunct1, THEN mp, OF b]
  have c: "\<exists>chunks. chunk_text (lit ''hello world, this is'') 8 3 = Some (Inr chunks)
        \<and> chunks \<noteq> []
        \<and> chunk_start 8 3 (length chunks - 1) < int (length (lit ''hello world, this is''))
        \<and> int (length (lit ''hello world, this is'')) \<le> chunk_start 8 3 (length chunks)
        \<and> (\<forall>c\<in>set chunks. int (length c) \<le> 8)
        \<and> (\<forall>j<length (lit ''hello world, this is''). \<exists>i<length chunks.
              chunk_start 8 3 i \<le> int j
            \<and> int j < chunk_start 8 3 i + int (length (chunks ! i))
            \<and> chunks ! i ! (j - nat (chunk_start 8 3 i)) = lit ''hello world, this is'' ! j)"
    using r1 by blast
  show ?thesis by (intro conjI h0 h1 h b c r2)
qed

text \<open>
  The claim without the restriction to texts that are not blank fails on a text of one
  blank: the call returns no chunk, so the text's only character is in none.
\<close>

theorem chunk_text_blank_counterexample:
  "chunk_text (lit '' '') 800 150 = Some (Inr [])
   \<and> length (lit '' '') = 1
   \<and> \<not> (\<exists>chunks. chunk_text (lit '' '') 800 150 = Some (Inr chunks)
            \<and> (\<forall>j<length (lit '' ''). \<exists>c\<in>set chunks. lit '' '' ! j \<in> set c))"
  by (simp add: chunk_text_def strip_def lit_def isspace_def)

text \<open>
  Claim C7. For every text and every \<open>size\<close> and \<open>overlap\<close> with \<open>overlap < size\<close>,
  \<open>chunk_text\<close> returns: the loop returns from every start offset and accumulator, each
  iteration moves the start offset strictly forward, and the loop is left as soon as the
  start offset is not below the length of the text.
\<close>

theorem chunk_text_terminates:
  assumes "overlap < sz"
  shows "(\<exists>r. chunk_text text sz overlap = Some r)
       \<and> (\<forall>start chunks. \<exists>cs. chunk_loop text sz overlap start chunks = Some cs)
       \<and> (\<forall>start. start < start + (sz - overlap))
       \<and> (\<forall>start chunks. \<not> start < int (length text)
             \<longrightarrow> chunk_loop text sz overlap start chunks = Some chunks)"
proof (intro conjI)
  show "\<exists>r. chunk_text text sz overlap = Some r"
    by (simp add: chunk_text_result [OF assms])
  show "\<forall>start chunks. \<exists>cs. chunk_loop text sz overlap start chunks = Some cs"
    by (simp add: chunk_loop_result [OF assms])
  show "\<forall>start. start < start + (sz - overlap)"
    using assms by simp
  show "\<forall>start chunks. \<not> start < int (length text)
             \<longrightarrow> chunk_loop text sz overlap start chunks = Some chunks"
    using chunk_loop_stop by blast
qed

theorem chunk_text_terminates_witness:
  "(3::int) < 8
   \<and> (\<exists>r. chunk_text (lit ''hello world, this is'') 8 3 = Some r)
   \<and> (\<exists>cs. chunk_loop (lit ''hello world, this is'') 8 3 0 [] = Some cs)"
  using chunk_text_terminates [of 3 8 "lit ''hello world, this is''"] by simp


section \<open>The vector store: adding documents\<close>

text \<open>
  Claim C2. The store a call of \<open>add_documents\<close> works on is the module state after
  \<open>_ensure_initialized()\<close>; it is the state at entry whenever the globals are already
  loaded. If that store holds \<open>M\<close> vectors and \<open>M\<close> metadata rows and the call returns
  normally for \<open>N\<close> chunks and a source label, then afterwards the index holds the \<open>M\<close>
  old vectors followed by the \<open>N\<close> embeddings of the chunks, the metadata holds the
  \<open>M\<close> old rows followed by the rows \<open>{text: chunks[i], source}\<close> in input order, both
  have length \<open>M + N\<close>, and so the number of vectors equals the number of rows again.
\<close>

theorem add_documents_appends:
  assumes "index (ensure_initialized e st) = Some vecs"
    and "metadata (ensure_initialized e st) = Some rows"
    and "length vecs = length rows"
    and "fst (add_documents e st chunks source) = Inr ()"
  shows "index (snd (add_documents e st chunks source)) = Some (vecs @ map (embed e) chunks)
       \<and> metadata (snd (add_documents e st chunks source))
           = Some (rows @ map (\<lambda>c. \<lparr>doc_text = c, doc_source = source\<rparr>) chunks)
       \<and> length (vecs @ map (embed e) chunks) = length rows + length chunks
       \<and> length (rows @ map (\<lambda>c. \<lparr>doc_text = c, doc_source = source\<rparr>) chunks)
           = length rows + length chunks
       \<and> (\<forall>i<length chunks.
             (rows @ map (\<lambda>c. \<lparr>doc_text = c, doc_source = source\<rparr>) chunks) ! (length rows + i)
               = \<lparr>doc_text = chunks ! i, doc_source = source\<rparr>)
       \<and> counts_agree (snd (add_documents e st chunks source))"
proof -
  have st': "index (snd (add_documents e st chunks source)) = Some (vecs @ map (embed e) chunks)
       \<and> metadata (snd (add_documents e st chunks source))
           = Some (rows @ map (\<lambda>c. \<lparr>doc_text = c, doc_source = source\<rparr>) chunks)"
  proof -
    obtain m where m: "model (ensure_initialized e st) = Some m"
      using assms(4)
      by (cases "model (ensure_initialized e st)")
         (simp_all add: add_documents_def Let_def assms(1))
    have enc: "encode_error e chunks = None"
      using assms(4)
      by (cases "encode_error e chunks")
         (simp_all add: add_documents_def Let_def assms(1) m)
    have add: "index_add_error e (map (embed e) chunks) = None"
      using assms(4)
      by (cases "index_add_error e (map (embed e) chunks)")
         (simp_all add: add_documents_def Let_def assms(1) m enc)
    show ?thesis
      by (simp add: add_documents_def Let_def assms(1,2) m enc add)
  qed
  then show ?thesis
    using assms(3) by (simp add: counts_agree_def nth_append)
qed

theorem add_documents_appends_witness:
  "index (ensure_initialized demo_env three_store) = Some [5, 10, 18]
   \<and> metadata (ensure_initialized demo_env three_store) = Some three_rows
   \<and> length [5, 10, 18 :: int] = length three_rows
   \<and> fst (add_documents demo_env three_store [lit ''eta'', lit ''theta''] (lit ''b.txt'')) = Inr ()
   \<and> index (snd (add_documents demo_env three_store [lit ''eta'', lit ''theta''] (lit ''b.txt'')))
       = Some [5, 10, 18, 3, 5]
   \<and> metadata (snd (add_documents demo_env three_store [lit ''eta'', lit ''theta''] (lit ''b.txt'')))
       = Some (three_rows @ [\<lparr>doc_text = lit ''eta'', doc_source = lit ''b.txt''\<rparr>,
                             \<lparr>doc_text = lit ''theta'', doc_source = lit ''b.txt''\<rparr>])
   \<and> counts_agree (snd (add_documents demo_env three_store [lit ''eta'', lit ''theta'']
                          (lit ''b.txt'')))"
proof -
  have ei: "ensure_initialized demo_env three_store = three_store"
    by (simp add: ensure_initialized_def three_store_def)
  have h1: "index (ensure_initialized demo_env three_store) = Some [5, 10, 18]"
    by (simp add: ei) (simp add: three_store_def)
  have h2: "metadata (ensure_initialized demo_env three_store) = Some three_rows"
    by (simp add: ei) (simp add: three_store_def)
  have h3: "length [5, 10, 18 :: int] = length three_rows"
    by (simp add: three_rows_def three_chunks_def)
  have h4: "fst (add_documents demo_env three_store [lit ''eta'', lit ''theta''] (lit ''b.txt''))
              = Inr ()"
    by (simp add: add_documents_def ei Let_def) (simp add: three_store_def demo_env_def)
  note r = add_documents_appends [OF h1 h2 h3 h4]
  have c1: "index (snd (add_documents demo_env three_store [lit ''eta'', lit ''theta'']
                          (lit ''b.txt'')))
       = Some [5, 10, 18, 3, 5]"
    using r [THEN conjunct1] by (simp add: demo_env_def lit_def)
  have c2: "metadata (snd (add_documents demo_env three_store [lit ''eta'', lit ''theta'']
                             (lit ''b.txt'')))
       = Some (three_rows @ [\<lparr>doc_text = lit ''eta'', doc_source = lit ''b.txt''\<rparr>,
                             \<lparr>doc_text = lit ''theta'', doc_source = lit ''b.txt''\<rparr>])"
    using r [THEN conjunct2, THEN conjunct1] by simp
  have c3: "counts_agree (snd (add_documents demo_env three_store [lit ''eta'', lit ''theta'']
                          (lit ''b.txt'')))"
    using r by blast
  show ?thesis by (intro conjI h1 h2 h3 h4 c1 c2 c3)
qed

text \<open>
  Claim C6, as the code has it. Take a call of \<open>add_documents\<close> whose embedding and
  whose append to the index succeed, and in which writing the index file raises, or
  writing the index file succeeds and writing the metadata file raises. The call returns
  normally; the index and the metadata in memory hold the appended entries; the
  exception is not raised to the caller but only logged, by two records: an error record
  that carries the exception, then the warning
  \<open>Data added to memory but not saved to disk\<close>; and nothing is retried, each file being
  written at most once: the index file alone when its write fails, the index file and
  then the metadata file otherwise.
\<close>

theorem persist_failure_tolerated:
  assumes "model (ensure_initialized e st) = Some m"
    and "index (ensure_initialized e st) = Some vecs"
    and "metadata (ensure_initialized e st) = Some rows"
    and "encode_error e chunks = None"
    and "index_add_error e (map (embed e) chunks) = None"
    and "write_index_error e = Some x \<or> (write_index_error e = None \<and> dump_meta_error e = Some x)"
  shows "fst (add_documents e st chunks source) = Inr ()
       \<and> index (snd (add_documents e st chunks source)) = Some (vecs @ map (embed e) chunks)
       \<and> metadata (snd (add_documents e st chunks source))
           = Some (rows @ map (\<lambda>c. \<lparr>doc_text = c, doc_source = source\<rparr>) chunks)
       \<and> log_records (snd (add_documents e st chunks source))
           = log_records (ensure_initialized e st)
             @ [(ERROR, lit ''[ERROR] Failed to persist data: '' @ exn_str x),
                (WARNING, lit ''Data added to memory but not saved to disk'')]
       \<and> writes (snd (add_documents e st chunks source))
           = writes st @ (if write_index_error e = None then [INDEX_PATH, META_PATH]
                          else [INDEX_PATH])"
proof -
  show ?thesis
    using assms(6)
  proof (elim disjE conjE)
    assume "write_index_error e = Some x"
    then show ?thesis
      by (simp add: add_documents_def Let_def persist_def assms(1-5)
            ensure_initialized_writes)
  next
    assume "write_index_error e = None" and "dump_meta_error e = Some x"
    then show ?thesis
      by (simp add: add_documents_def Let_def persist_def assms(1-5)
            ensure_initialized_writes)
  qed
qed

theorem persist_failure_tolerated_witness:
  "model (ensure_initialized disk_full_env three_store) = Some SentenceTransformer
   \<and> encode_error disk_full_env [lit ''eta''] = None
   \<and> index_add_error disk_full_env (map (embed disk_full_env) [lit ''eta'']) = None
   \<and> write_index_error disk_full_env = Some (LibraryError (lit ''No space left on device''))
   \<and> fst (add_documents disk_full_env three_store [lit ''eta''] (lit ''b.txt'')) = Inr ()
   \<and> index (snd (add_documents disk_full_env three_store [lit ''eta''] (lit ''b.txt'')))
       = Some [5, 10, 18, 3]
   \<and> metadata (snd (add_documents disk_full_env three_store [lit ''eta''] (lit ''b.txt'')))
       = Some (three_rows @ [\<lparr>doc_text = lit ''eta'', doc_source = lit ''b.txt''\<rparr>])
   \<and> log_records (snd (add_documents disk_full_env three_store [lit ''eta''] (lit ''b.txt'')))
       = [(ERROR, lit ''[ERROR] Failed to persist data: No space left on device''),
          (WARNING, lit ''Data added to memory but not saved to disk'')]
   \<and> writes (snd (add_documents disk_full_env three_store [lit ''eta''] (lit ''b.txt'')))
       = [INDEX_PATH, META_PATH, INDEX_PATH]"
proof -
  have ei: "ensure_initialized disk_full_env three_store = three_store"
    by (simp add: ensure_initialized_def three_store_def)
  have h1: "model (ensure_initialized disk_full_env three_store) = Some SentenceTransformer"
    by (simp add: ei) (simp add: three_store_def)
  have h2: "index (ensure_initialized disk_full_env three_store) = Some [5, 10, 18]"
    by (simp add: ei) (simp add: three_store_def)
  have h3: "metadata (ensure_initialized disk_full_env three_store) = Some three_rows"
    by (simp add: ei) (simp add: three_store_def)
  have h4: "encode_error disk_full_env [lit ''eta''] = None"
    by (simp add: disk_full_env_def demo_env_def)
  have h5: "index_add_error disk_full_env (map (embed disk_full_env) [lit ''eta'']) = None"
    by (simp add: disk_full_env_def demo_env_def)
  have w: "write_index_error disk_full_env = Some (LibraryError (lit ''No space left on device''))"
    by (simp add: disk_full_env_def)
  then have h6: "write_index_error disk_full_env = Some (LibraryError (lit ''No space left on device''))
     \<or> (write_index_error disk_full_env = None
          \<and> dump_meta_error disk_full_env = Some (LibraryError (lit ''No space left on device'')))"
    by simp
  note r = persist_failure_tolerated [OF h1 h2 h3 h4 h5 h6, of "lit ''b.txt''"]
  have c1: "fst (add_documents disk_full_env three_store [lit ''eta''] (lit ''b.txt'')) = Inr ()"
    using r by blast
  have c2: "index (snd (add_documents disk_full_env three_store [lit ''eta''] (lit ''b.txt'')))
       = Some [5, 10, 18, 3]"
    using r [THEN conjunct2, THEN conjunct1]
    by (simp add: disk_full_env_def demo_env_def lit_def)
  have c3: "metadata (snd (add_documents disk_full_env three_store [lit ''eta''] (lit ''b.txt'')))
       = Some (three_rows @ [\<lparr>doc_text = lit ''eta'', doc_source = lit ''b.txt''\<rparr>])"
    using r [THEN conjunct2, THEN conjunct2, THEN conjunct1] by simp
  have c4: "log_records (snd (add_documents disk_full_env three_store [lit ''eta'']
                                (lit ''b.txt'')))
       = [(ERROR, lit ''[ERROR] Failed to persist data: No space left on device''),
          (WARNING, lit ''Data added to memory but not saved to disk'')]"
    using r [THEN conjunct2, THEN conjunct2, THEN conjunct2, THEN conjunct1]
    by (simp add: ei) (simp add: three_store_def lit_def)
  have c5: "writes (snd (add_documents disk_full_env three_store [lit ''eta''] (lit ''b.txt'')))
       = [INDEX_PATH, META_PATH, INDEX_PATH]"
    using r [THEN conjunct2, THEN conjunct2, THEN conjunct2, THEN conjunct2] w
    by (simp add: three_store_def)
  show ?thesis by (intro conjI h1 h4 h5 w c1 c2 c3 c4 c5)
qed

text \<open>
  The failure is not logged as a warning only: when the index file cannot be written,
  the first record the call logs is of level \<open>ERROR\<close>.
\<close>

theorem persist_failure_error_record_counterexample:
  "fst (add_documents disk_full_env three_store [lit ''eta''] (lit ''b.txt'')) = Inr ()
   \<and> log_records (snd (add_documents disk_full_env three_store [lit ''eta''] (lit ''b.txt'')))
       = [(ERROR, lit ''[ERROR] Failed to persist data: No space left on device''),
          (WARNING, lit ''Data added to memory but not saved to disk'')]
   \<and> \<not> (\<forall>r\<in>set (log_records (snd (add_documents disk_full_env three_store [lit ''eta'']
                                         (lit ''b.txt'')))).
            fst r = WARNING)"
proof -
  have 1: "fst (add_documents disk_full_env three_store [lit ''eta''] (lit ''b.txt'')) = Inr ()"
    by (simp add: add_documents_def ensure_initialized_def persist_def Let_def
          disk_full_env_def demo_env_def three_store_def)
  show ?thesis using 1 by (simp add: disk_full_log)
qed

text \<open>
  Claim C10. \<open>_ensure_initialized()\<close> tries to load the embedding model again on every
  call that finds it \<open>None\<close>. In the state where the model is \<open>None\<close> and loading it
  fails, while the index and the metadata are loaded, \<open>add_documents\<close> raises
  \<open>RuntimeError("Vector store not initialized properly")\<close> and leaves the model, the
  index and the metadata as they were, writing nothing to disk; \<open>search\<close> in the same
  state returns the empty list and raises nothing, whatever the metadata holds.
\<close>

theorem model_missing_asymmetry:
  assumes "model st = None" and "load_model_error e = Some x"
    and "index st = Some vecs" and "metadata st = Some rows"
  shows "fst (add_documents e st chunks source)
           = Inl (RuntimeError (lit ''Vector store not initialized properly''))
       \<and> model (snd (add_documents e st chunks source)) = None
       \<and> index (snd (add_documents e st chunks source)) = Some vecs
       \<and> metadata (snd (add_documents e st chunks source)) = Some rows
       \<and> writes (snd (add_documents e st chunks source)) = writes st
       \<and> fst (search e st query k) = Inr []
       \<and> model (snd (search e st query k)) = None
       \<and> index (snd (search e st query k)) = Some vecs
       \<and> metadata (snd (search e st query k)) = Some rows"
proof -
  have m: "model (ensure_initialized e st) = None"
    using assms by (simp add: ensure_initialized_model_fails)
  have i: "index (ensure_initialized e st) = Some vecs"
    using assms by (simp add: ensure_initialized_index)
  have r: "metadata (ensure_initialized e st) = Some rows"
    using assms by (simp add: ensure_initialized_metadata)
  show ?thesis
    by (simp add: add_documents_def search_def Let_def m i r ensure_initialized_writes)
qed

theorem model_missing_asymmetry_witness:
  "model modelless_store = None
   \<and> load_model_error no_model_env = Some (LibraryError (lit ''model download failed''))
   \<and> index modelless_store = Some [5, 10, 18]
   \<and> metadata modelless_store = Some three_rows
   \<and> fst (add_documents no_model_env modelless_store [lit ''eta''] (lit ''b.txt''))
       = Inl (RuntimeError (lit ''Vector store not initialized properly''))
   \<and> index (snd (add_documents no_model_env modelless_store [lit ''eta''] (lit ''b.txt'')))
       = Some [5, 10, 18]
   \<and> metadata (snd (add_documents no_model_env modelless_store [lit ''eta''] (lit ''b.txt'')))
       = Some three_rows
   \<and> fst (search no_model_env modelless_store (lit ''beta'') 5) = Inr []"
proof -
  have h1: "model modelless_store = None" by (simp add: modelless_store_def)
  have h2: "load_model_error no_model_env = Some (LibraryError (lit ''model download failed''))"
    by (simp add: no_model_env_def)
  have h3: "index modelless_store = Some [5, 10, 18]"
    by (simp add: modelless_store_def three_store_def)
  have h4: "metadata modelless_store = Some three_rows"
    by (simp add: modelless_store_def three_store_def)
  note r = model_missing_asymmetry
             [OF h1 h2 h3 h4, of "[lit ''eta'']" "lit ''b.txt''" "lit ''beta''" 5]
  have c1: "fst (add_documents no_model_env modelless_store [lit ''eta''] (lit ''b.txt''))
       = Inl (RuntimeError (lit ''Vector store not initialized properly''))"
    using r by blast
  have c2: "index (snd (add_documents no_model_env modelless_store [lit ''eta''] (lit ''b.txt'')))
       = Some [5, 10, 18]"
    using r by blast
  have c3: "metadata (snd (add_documents no_model_env modelless_store [lit ''eta'']
                             (lit ''b.txt'')))
       = Some three_rows"
    using r by blast
  have c4: "fst (search no_model_env modelless_store (lit ''beta'') 5) = Inr []"
    using r by blast
  show ?thesis by (intro conjI h1 h2 h3 h4 c1 c2 c3 c4)
qed


section \<open>The vector store: search on a short index\<close>

text \<open>
  Claim C9, as the code has it. Take a search on a loaded store whose metadata has
  \<open>M \<ge> 1\<close> rows and whose flat index holds \<open>V\<close> vectors with \<open>0 < V < k\<close>, for a query
  that can be embedded. The index returns \<open>k\<close> labels of which the last \<open>k - V\<close> are
  \<open>-1\<close>; the guard \<open>idx < len(_metadata)\<close> admits \<open>-1\<close>, and \<open>_metadata[-1]\<close> is the last
  metadata row. The returned list has \<open>(k - V) + min(V, M)\<close> entries, since an ordinal
  that is not below \<open>M\<close> is skipped: its length is \<open>k\<close> whenever \<open>V \<le> M\<close>. Its final
  \<open>k - V\<close> entries all equal the last metadata row.
\<close>

theorem search_pads_with_last_row:
  assumes "model st = Some m" and "index st = Some vecs" and "metadata st = Some rows"
    and "rows \<noteq> []" and "encode_error e [query] = None"
    and "0 < length vecs" and "int (length vecs) < k"
  shows "\<exists>labels docs.
           flat_search (dist e) vecs (embed e query) k = Inr labels
         \<and> length labels = nat k
         \<and> drop (length vecs) labels = replicate (nat k - length vecs) (- 1)
         \<and> (- 1 < int (length rows))
         \<and> py_index rows (- 1) = Inr (last rows)
         \<and> fst (search e st query k) = Inr docs
         \<and> length docs = nat k - length vecs + min (length vecs) (length rows)
         \<and> drop (min (length vecs) (length rows)) docs
             = replicate (nat k - length vecs) (last rows)
         \<and> (length vecs \<le> length rows \<longrightarrow> length docs = nat k)"
proof -
  let ?ranked = "sort_key (\<lambda>i. dist e (embed e query) (vecs ! i)) [0..<length vecs]"
  let ?labels = "map int ?ranked @ replicate (nat k - length vecs) (- 1)"
  let ?hits = "map ((!) rows) (filter (\<lambda>j. j < length rows) ?ranked)"
  let ?docs = "?hits @ replicate (nat k - length vecs) (last rows)"
  have k: "0 < k" "length vecs < nat k" using assms(6,7) by auto
  have tk: "take (nat k) ?ranked = ?ranked" using k by simp
  have fs: "flat_search (dist e) vecs (embed e query) k = Inr ?labels"
    using k by (simp add: flat_search_def tk)
  have hits: "length ?hits = min (length vecs) (length rows)"
    by (simp add: count_below)
  have res: "fst (search e st query k) = Inr ?docs"
    using search_result [OF assms(1-5) k(1)] by (simp only: tk)
  have 0: "- 1 < int (length rows)" by simp
  have 1: "length ?labels = nat k" using k by simp
  have 2: "drop (length vecs) ?labels = replicate (nat k - length vecs) (- 1)" by simp
  have 3: "py_index rows (- 1) = Inr (last rows)" using assms(4) by (rule py_index_minus_one)
  have 4: "length ?docs = nat k - length vecs + min (length vecs) (length rows)"
    using hits by simp
  have 5: "drop (min (length vecs) (length rows)) ?docs
             = replicate (nat k - length vecs) (last rows)"
    using hits by simp
  have 6: "length vecs \<le> length rows \<longrightarrow> length ?docs = nat k"
    using 4 k by auto
  show ?thesis
    apply (rule exI [of _ ?labels])
    apply (rule exI [of _ ?docs])
    using fs 1 2 0 3 res 4 5 6 apply blast
    done
qed

theorem search_pads_with_last_row_witness:
  "model three_store = Some SentenceTransformer
   \<and> index three_store = Some [5, 10, 18]
   \<and> metadata three_store = Some three_rows
   \<and> three_rows \<noteq> []
   \<and> encode_error demo_env [lit ''beta''] = None
   \<and> 0 < length [5, 10, 18 :: int]
   \<and> int (length [5, 10, 18 :: int]) < 5
   \<and> (\<exists>labels docs.
           flat_search (dist demo_env) [5, 10, 18] (embed demo_env (lit ''beta'')) 5 = Inr labels
         \<and> length labels = nat 5
         \<and> drop (length [5, 10, 18 :: int]) labels
             = replicate (nat 5 - length [5, 10, 18 :: int]) (- 1)
         \<and> fst (search demo_env three_store (lit ''beta'') 5) = Inr docs
         \<and> length docs = nat 5
         \<and> drop (min (length [5, 10, 18 :: int]) (length three_rows)) docs
             = replicate (nat 5 - length [5, 10, 18 :: int]) (last three_rows))"
proof -
  have h1: "model three_store = Some SentenceTransformer" by (simp add: three_store_def)
  have h2: "index three_store = Some [5, 10, 18]" by (simp add: three_store_def)
  have h3: "metadata three_store = Some three_rows" by (simp add: three_store_def)
  have h4: "three_rows \<noteq> []" by (simp add: three_rows_def three_chunks_def)
  have h5: "encode_error demo_env [lit ''beta''] = None" by (simp add: demo_env_def)
  have h6: "0 < length [5, 10, 18 :: int]" by simp
  have h7: "int (length [5, 10, 18 :: int]) < 5" by simp
  have l: "length [5, 10, 18 :: int] \<le> length three_rows"
    by (simp add: three_rows_def three_chunks_def)
  from search_pads_with_last_row [OF h1 h2 h3 h4 h5 h6 h7] l
  have "\<exists>labels docs.
           flat_search (dist demo_env) [5, 10, 18] (embed demo_env (lit ''beta'')) 5 = Inr labels
         \<and> length labels = nat 5
         \<and> drop (length [5, 10, 18 :: int]) labels
             = replicate (nat 5 - length [5, 10, 18 :: int]) (- 1)
         \<and> fst (search demo_env three_store (lit ''beta'') 5) = Inr docs
         \<and> length docs = nat 5
         \<and> drop (min (length [5, 10, 18 :: int]) (length three_rows)) docs
             = replicate (nat 5 - length [5, 10, 18 :: int]) (last three_rows)"
    by blast
  then show ?thesis using h1 h2 h3 h4 h5 h6 h7 by blast
qed

text \<open>
  The length is not always \<open>k\<close>. A process started on an index file of three vectors
  and a metadata file of one row loads a store with three vectors and one row; a search
  with \<open>k = 5\<close> on it returns three rows, since the ordinals 1 and 2 are skipped. And
  when the query cannot be embedded the search returns the empty list.
\<close>

theorem search_desync_counterexample:
  "ensure_initialized desync_env fresh_store = desync_store
   \<and> index desync_store = Some [5, 10, 18]
   \<and> metadata desync_store = Some [\<lparr>doc_text = lit ''alpha'', doc_source = lit ''a.pdf''\<rparr>]
   \<and> fst (search desync_env fresh_store (lit ''beta'') 5)
       = Inr (replicate 3 \<lparr>doc_text = lit ''alpha'', doc_source = lit ''a.pdf''\<rparr>)
   \<and> fst (search demo_env desync_store (lit ''beta'') 5)
       = Inr (replicate 3 \<lparr>doc_text = lit ''alpha'', doc_source = lit ''a.pdf''\<rparr>)
   \<and> length (replicate 3 \<lparr>doc_text = lit ''alpha'', doc_source = lit ''a.pdf''\<rparr>) \<noteq> nat 5
   \<and> fst (search no_encode_env three_store (lit ''beta'') 5) = Inr []"
  using desync_loaded desync_env_search desync_store_search no_encode_search
  by (simp add: desync_store_def)

text \<open>
  Claim C1 asks that a search with \<open>k\<close> above the number \<open>V\<close> of stored vectors return
  at most \<open>V\<close> rows, and exactly three rows for \<open>k = 5\<close> on the index of one ingested
  document of three chunks. The loop of \<open>search\<close> has a guard and a warning for labels
  out of range, but the guard tests \<open>idx < len(_metadata)\<close> only, so the padding label
  \<open>-1\<close> passes it. Ingesting the three chunks into the empty store gives the store
  \<open>three_store\<close>, of three vectors and three rows; the search with \<open>k = 5\<close> on it returns
  five rows, the three rows of the document followed by its last row twice.
\<close>

theorem search_short_index_returns_k:
  "add_documents demo_env fresh_store three_chunks (lit ''a.pdf'') = (Inr (), three_store)
   \<and> index three_store = Some [5, 10, 18]
   \<and> metadata three_store = Some three_rows
   \<and> length three_rows = 3
   \<and> fst (search demo_env three_store (lit ''beta'') 5)
       = Inr (three_rows @ [last three_rows, last three_rows])
   \<and> length (three_rows @ [last three_rows, last three_rows]) = 5"
  using ingest_three three_store_search
  by (simp add: three_store_def three_rows_def three_chunks_def)


section \<open>Answering a question\<close>

text \<open>
  Claim C5. Whenever the search of \<open>answer_question\<close> returns the empty list, the call
  returns the fixed answer and an empty source list, and no prompt is sent to the
  generation service during the call.
\<close>

theorem answer_question_no_documents:
  assumes "fst (search e (store w) question 5) = Inr []"
  shows "fst (answer_question e w question session_id)
           = Inr \<lparr>answer = lit ''I don't have any relevant documents to answer this question. Please upload some documents first.'',
                  sources = []\<rparr>
       \<and> prompts (snd (answer_question e w question session_id)) = prompts w"
proof -
  obtain s1 where "search e (store w) question 5 = (Inr [], s1)"
    using assms by (cases "search e (store w) question 5") simp
  then show ?thesis
    by (simp add: answer_question_def Let_def no_documents_answer_def)
qed

theorem answer_question_no_documents_witness:
  "fst (search demo_env (store fresh_world) (lit ''beta'') 5) = Inr []
   \<and> fst (answer_question demo_env fresh_world (lit ''beta'') (Some (lit ''s1'')))
       = Inr \<lparr>answer = lit ''I don't have any relevant documents to answer this question. Please upload some documents first.'',
              sources = []\<rparr>
   \<and> prompts (snd (answer_question demo_env fresh_world (lit ''beta'') (Some (lit ''s1'')))) = []"
proof -
  have h: "fst (search demo_env (store fresh_world) (lit ''beta'') 5) = Inr []"
    using fresh_store_search by (simp add: fresh_world_def)
  note r = answer_question_no_documents [OF h, of "Some (lit ''s1'')"]
  have c1: "fst (answer_question demo_env fresh_world (lit ''beta'') (Some (lit ''s1'')))
       = Inr \<lparr>answer = lit ''I don't have any relevant documents to answer this question. Please upload some documents first.'',
              sources = []\<rparr>"
    using r by blast
  have c2: "prompts (snd (answer_question demo_env fresh_world (lit ''beta'')
                            (Some (lit ''s1'')))) = []"
    using r [THEN conjunct2] by (simp add: fresh_world_def)
  show ?thesis by (intro conjI h c1 c2)
qed

text \<open>
  Claim C4. Whenever the search of \<open>answer_question\<close> returns a non-empty list of rows
  and the generation service answers the prompt built from them, the call returns the
  generated text without its leading and trailing whitespace, and a source list with one
  entry per row, in the order of the search: the \<open>i\<close>-th entry (from 0) has the number
  \<open>i + 1\<close>, stored under the key \<open>"id"\<close>, and the source label of the \<open>i\<close>-th row. Rows
  of the same source give entries with the same label. Exactly one prompt is sent.
\<close>

theorem answer_question_sources:
  assumes "fst (search e (store w) question 5) = Inr docs" and "docs \<noteq> []"
    and "ollama_reply e (build_prompt (build_context docs) question) = Inr generated"
  shows "fst (answer_question e w question session_id)
           = Inr \<lparr>answer = strip generated, sources = make_sources docs\<rparr>
       \<and> length (make_sources docs) = length docs
       \<and> (\<forall>i<length docs.
             make_sources docs ! i
               = \<lparr>ref_id = int i + 1, ref_source = doc_source (docs ! i)\<rparr>)
       \<and> (\<exists>a b. generated = a @ strip generated @ b
              \<and> (\<forall>c\<in>set a. isspace c) \<and> (\<forall>c\<in>set b. isspace c))
       \<and> (strip generated = []
            \<or> (\<not> isspace (hd (strip generated)) \<and> \<not> isspace (last (strip generated))))
       \<and> prompts (snd (answer_question e w question session_id))
            = prompts w @ [build_prompt (build_context docs) question]"
proof -
  obtain s1 where s: "search e (store w) question 5 = (Inr docs, s1)"
    using assms(1) by (cases "search e (store w) question 5") simp
  have 1: "fst (answer_question e w question session_id)
           = Inr \<lparr>answer = strip generated, sources = make_sources docs\<rparr>"
    using s assms(2,3) by (simp add: answer_question_def Let_def ollama_generate_def)
  have 2: "prompts (snd (answer_question e w question session_id))
            = prompts w @ [build_prompt (build_context docs) question]"
    using s assms(2,3) by (simp add: answer_question_def Let_def ollama_generate_def)
  have 3: "strip generated = []
            \<or> (\<not> isspace (hd (strip generated)) \<and> \<not> isspace (last (strip generated)))"
    using strip_ends [of generated] by blast
  show ?thesis
    using 1 2 3 strip_decompose [of generated] make_sources_nth [of _ docs]
    by (simp add: make_sources_length)
qed

theorem answer_question_sources_witness:
  "fst (search demo_env (store three_world) (lit ''beta'') 5)
     = Inr (three_rows @ [last three_rows, last three_rows])
   \<and> three_rows @ [last three_rows, last three_rows] \<noteq> []
   \<and> fst (answer_question demo_env three_world (lit ''beta'') None)
       = Inr \<lparr>answer = lit ''It is 42 [1].'',
              sources = [\<lparr>ref_id = 1, ref_source = lit ''a.pdf''\<rparr>,
                         \<lparr>ref_id = 2, ref_source = lit ''a.pdf''\<rparr>,
                         \<lparr>ref_id = 3, ref_source = lit ''a.pdf''\<rparr>,
                         \<lparr>ref_id = 4, ref_source = lit ''a.pdf''\<rparr>,
                         \<lparr>ref_id = 5, ref_source = lit ''a.pdf''\<rparr>]\<rparr>"
proof -
  let ?docs = "three_rows @ [last three_rows, last three_rows]"
  have h1: "fst (search demo_env (store three_world) (lit ''beta'') 5) = Inr ?docs"
    using three_store_search by (simp add: three_world_def)
  have h2: "?docs \<noteq> []" by simp
  have h3: "ollama_reply demo_env (build_prompt (build_context ?docs) (lit ''beta''))
              = Inr (lit ''  It is 42 [1].  '')"
    by (simp add: demo_env_def)
  have s: "strip (lit ''  It is 42 [1].  '') = lit ''It is 42 [1].''"
    by (simp add: strip_def lit_def isspace_def)
  have m: "make_sources ?docs
             = [\<lparr>ref_id = 1, ref_source = lit ''a.pdf''\<rparr>,
                \<lparr>ref_id = 2, ref_source = lit ''a.pdf''\<rparr>,
                \<lparr>ref_id = 3, ref_source = lit ''a.pdf''\<rparr>,
                \<lparr>ref_id = 4, ref_source = lit ''a.pdf''\<rparr>,
                \<lparr>ref_id = 5, ref_source = lit ''a.pdf''\<rparr>]"
    by (simp add: make_sources_def three_rows_def three_chunks_def enumerate_eq_zip
          upt_rec numeral_eq_Suc)
  note r = answer_question_sources [OF h1 h2 h3, of None]
  have c: "fst (answer_question demo_env three_world (lit ''beta'') None)
       = Inr \<lparr>answer = lit ''It is 42 [1].'',
              sources = [\<lparr>ref_id = 1, ref_source = lit ''a.pdf''\<rparr>,
                         \<lparr>ref_id = 2, ref_source = lit ''a.pdf''\<rparr>,
                         \<lparr>ref_id = 3, ref_source = lit ''a.pdf''\<rparr>,
                         \<lparr>ref_id = 4, ref_source = lit ''a.pdf''\<rparr>,
                         \<lparr>ref_id = 5, ref_source = lit ''a.pdf''\<rparr>]\<rparr>"
    using r [THEN conjunct1] by (simp only: s m)
  show ?thesis by (intro conjI h1 h2 c)
qed


section \<open>Evicting progress sessions\<close>

text \<open>
  Claim C8 asks that \<open>cleanup_old_sessions(K)\<close> leave \<open>min(C, K)\<close> of \<open>C\<close> sessions, the
  most recently created ones. For \<open>K \<ge> 1\<close> the code does so (lemma
  \<open>cleanup_keeps_most_recent\<close>). For \<open>K = 0\<close> the sessions to evict are
  \<open>sessions[:-0]\<close>, which is \<open>sessions[:0]\<close>, the empty list: on a tracker with the two
  sessions \<open>s1\<close> and \<open>s2\<close>, \<open>cleanup_old_sessions(0)\<close> evicts nothing and both remain,
  where \<open>min(2, 0) = 0\<close>.
\<close>

theorem cleanup_zero_evicts_nothing:
  "keys (progress_data two_sessions) = [lit ''s1'', lit ''s2'']
   \<and> keys (progress_data (cleanup_old_sessions two_sessions 0)) = [lit ''s1'', lit ''s2'']
   \<and> length (progress_data (cleanup_old_sessions two_sessions 0)) = 2
   \<and> min (length (progress_data two_sessions)) (nat 0) = 0"
  by (simp add: cleanup_zero_keeps_all two_sessions_def start_session_def init_tracker_def
      keys_def lit_def)

end
